theory Spec2Isabelle
  imports Complex_Main
begin

section \<open>Python values and exceptions\<close>

text \<open>
  The program is a Python command-line tool (\<^verbatim>\<open>app.py\<close>, \<^verbatim>\<open>ffmpeg_setup.py\<close>).
  Python floats are idealised as real numbers with exact arithmetic: rounding, infinities
  and NaN are outside the model. What is kept of the float range is the \<open>OverflowError\<close>
  that Python raises when an integer is converted to a float, or two integers are divided,
  and the result lies beyond the largest float. Strings are byte lists; only ASCII letters
  change case.
\<close>

datatype py_exc =
    FileNotFoundError string
  | ValueError string
  | RuntimeError string
  | KeyError string
  | TypeError
  | AttributeError
  | OSError
  | JSONDecodeError
  | OverflowError

datatype json =
    JNull
  | JBool bool
  | JInt int
  | JFloat real
  | JStr string
  | JList "json list"
  | JObj "(string \<times> json) list"

text \<open>
  The largest float is \<open>2 ^ 1024 - 2 ^ 971\<close>. A real number rounds to a float (to nearest,
  ties to even) unless its magnitude reaches \<open>2 ^ 1024 - 2 ^ 970\<close>, half a unit beyond.
\<close>

definition float_overflow :: "real \<Rightarrow> bool" where
  "float_overflow r = (2 ^ 1024 - 2 ^ 970 \<le> \<bar>r\<bar>)"

definition lower_char :: "char \<Rightarrow> char" where
  "lower_char c =
     (case map_of (zip ''ABCDEFGHIJKLMNOPQRSTUVWXYZ'' ''abcdefghijklmnopqrstuvwxyz'') c of
        None \<Rightarrow> c | Some d \<Rightarrow> d)"

definition lower :: "string \<Rightarrow> string" where
  "lower s = map lower_char s"

section \<open>Paths (pathlib, POSIX flavour)\<close>

text \<open>
  A pure path is its anchor (\<open>''''\<close> for a relative path, \<open>''/''\<close> or \<open>''//''\<close> otherwise)
  and its components. \<open>Path\<close> is the constructor call \<^verbatim>\<open>Path(s)\<close>: it splits at
  \<^verbatim>\<open>/\<close> and drops empty and \<^verbatim>\<open>.\<close> components.
\<close>

datatype path = PurePath (anchor: string) (parts: "string list")

fun split_slash :: "string \<Rightarrow> string list" where
  "split_slash [] = [[]]"
| "split_slash (c # cs) =
     (if c = CHR ''/'' then [] # split_slash cs
      else (case split_slash cs of [] \<Rightarrow> [[c]] | p # ps \<Rightarrow> (c # p) # ps))"

definition Path :: "string \<Rightarrow> path" where
  "Path s =
     PurePath
       (if take 1 s = ''/'' then (if take 2 s = ''//'' \<and> take 3 s \<noteq> ''///'' then ''//'' else ''/'')
        else '''')
       (filter (\<lambda>c. c \<noteq> '''' \<and> c \<noteq> ''.'') (split_slash s))"

definition name :: "path \<Rightarrow> string" where
  "name p = (if parts p = [] then '''' else last (parts p))"

definition parent :: "path \<Rightarrow> path" where
  "parent p = PurePath (anchor p) (butlast (parts p))"

text \<open>\<^verbatim>\<open>p / c\<close> for a single relative component \<open>c\<close>, the only use the program makes of it.\<close>

definition joinpath :: "path \<Rightarrow> string \<Rightarrow> path" where
  "joinpath p c = PurePath (anchor p) (parts p @ [c])"

fun rfind_dot :: "string \<Rightarrow> nat option" where
  "rfind_dot [] = None"
| "rfind_dot (c # cs) =
     (case rfind_dot cs of
        Some i \<Rightarrow> Some (Suc i)
      | None \<Rightarrow> (if c = CHR ''.'' then Some 0 else None))"

definition suffix :: "path \<Rightarrow> string" where
  "suffix p =
     (case rfind_dot (name p) of
        None \<Rightarrow> ''''
      | Some i \<Rightarrow> (if 0 < i \<and> Suc i < length (name p) then drop i (name p) else ''''))"

section \<open>The world: file system, log, external tool invocations\<close>

text \<open>
  The file system is an association list from absolute component lists to the kind of the
  entry; the root \<open>[]\<close> is always a directory. A relative path is resolved against the
  working directory. Symbolic links, permissions and \<^verbatim>\<open>..\<close> components are outside the
  model, and names compare case-sensitively.
\<close>

datatype kind = File | Dir

type_synonym files = "(string list \<times> kind) list"

record ffmpeg_cmd =
  cmd_input :: path
  cmd_fps :: real
  cmd_output :: path
  cmd_vsync :: string

datatype tool_call = ProbeCall path | RunCall ffmpeg_cmd

datatype level = INFO | WARNING | ERROR | CRITICAL

datatype event =
    InvalidMetadata path real real
  | FFprobeError path string
  | MetadataError path py_exc
  | DurationDefault path
  | InvalidTargetFPS path
  | FFmpegCommand string ffmpeg_cmd
  | FramesExtracted path
  | FFmpegFailed string string string
  | CriticalExtraction string py_exc
  | PathNotExist path
  | NoFramesSubdir path
  | NoPngFound path
  | Deleting nat path
  | DeleteFileError path py_exc
  | RemovedEmptyDir path
  | CouldNotRemoveDir path py_exc
  | AddedToPATH path
  | AlreadyInPATH path
  | BinariesNotFound
  | SetupCompleted
  | InputPathMissing path
  | DetectedJson path
  | BatchParseFailed py_exc
  | FoundVideos nat
  | CouldNotProcess string py_exc
  | DeleteFailed py_exc

record world =
  files :: files
  cwd :: "string list"
  environ_PATH :: "path list"
  logged :: "(level \<times> event) list"
  calls :: "tool_call list"

definition logger :: "level \<Rightarrow> event \<Rightarrow> world \<Rightarrow> world" where
  "logger lvl ev w = w\<lparr>logged := logged w @ [(lvl, ev)]\<rparr>"

definition abspath :: "world \<Rightarrow> path \<Rightarrow> string list" where
  "abspath w p = (if anchor p = '''' then cwd w @ parts p else parts p)"

definition lookup :: "files \<Rightarrow> string list \<Rightarrow> kind option" where
  "lookup fs q = (if q = [] then Some Dir else map_of fs q)"

definition exists :: "world \<Rightarrow> path \<Rightarrow> bool" where
  "exists w p = (lookup (files w) (abspath w p) \<noteq> None)"

definition is_dir :: "world \<Rightarrow> path \<Rightarrow> bool" where
  "is_dir w p = (lookup (files w) (abspath w p) = Some Dir)"

definition is_file :: "world \<Rightarrow> path \<Rightarrow> bool" where
  "is_file w p = (lookup (files w) (abspath w p) = Some File)"

text \<open>An entry \<open>q\<close> lies directly inside the directory \<open>d\<close>.\<close>

definition child_of :: "string list \<Rightarrow> string list \<Rightarrow> bool" where
  "child_of d q = (q \<noteq> [] \<and> butlast q = d)"

definition iterdir :: "world \<Rightarrow> path \<Rightarrow> py_exc + path list" where
  "iterdir w d =
     (if is_dir w d
      then Inr (map (\<lambda>(q, k). joinpath d (last q))
                  (filter (\<lambda>(q, k). child_of (abspath w d) q) (files w)))
      else Inl OSError)"

text \<open>The pattern \<^verbatim>\<open>*.png\<close>: the name ends in \<^verbatim>\<open>.png\<close>.\<close>

definition fnmatch_png :: "string \<Rightarrow> bool" where
  "fnmatch_png n = (4 \<le> length n \<and> drop (length n - 4) n = ''.png'')"

definition glob_png :: "world \<Rightarrow> path \<Rightarrow> path list" where
  "glob_png w d =
     map (\<lambda>(q, k). joinpath d (last q))
       (filter (\<lambda>(q, k). child_of (abspath w d) q \<and> fnmatch_png (last q)) (files w))"

text \<open>\<^verbatim>\<open>os.remove\<close>: removes a regular file, fails on anything else.\<close>

definition os_remove :: "path \<Rightarrow> world \<Rightarrow> py_exc + world" where
  "os_remove p w =
     (if is_file w p
      then Inr (w\<lparr>files := filter (\<lambda>(q, k). q \<noteq> abspath w p) (files w)\<rparr>)
      else Inl OSError)"

definition is_prefix :: "string list \<Rightarrow> string list \<Rightarrow> bool" where
  "is_prefix d q = (take (length d) q = d)"

text \<open>\<^verbatim>\<open>shutil.rmtree\<close>: removes a directory and everything below it.\<close>

definition rmtree :: "path \<Rightarrow> world \<Rightarrow> py_exc + world" where
  "rmtree p w =
     (if is_dir w p
      then Inr (w\<lparr>files := filter (\<lambda>(q, k). \<not> is_prefix (abspath w p) q) (files w)\<rparr>)
      else Inl OSError)"

text \<open>
  Well-formed file systems: one entry per location, the root is not listed, and every
  entry below the top level lies in a listed directory.
\<close>

definition wf_files :: "files \<Rightarrow> bool" where
  "wf_files fs =
     (distinct (map fst fs) \<and>
      (\<forall>(q, k) \<in> set fs. q \<noteq> [] \<and> (butlast q = [] \<or> (butlast q, Dir) \<in> set fs)))"

text \<open>The part of well-formedness that the deletion loop needs.\<close>

definition listed :: "files \<Rightarrow> bool" where
  "listed fs = (distinct (map fst fs) \<and> [] \<notin> fst ` set fs)"

section \<open>Frame Cleaner: \<^verbatim>\<open>delete_frames\<close>\<close>

text \<open>Lines 125--132: the directory to clean.\<close>

definition frames_dir_to_clean :: "path \<Rightarrow> world \<Rightarrow> path \<times> world" where
  "frames_dir_to_clean target_path w =
     (if is_dir w target_path \<and> lower (name target_path) \<noteq> ''frames'' then
        (let potential_frames_dir = joinpath target_path ''frames'' in
         if is_dir w potential_frames_dir then (potential_frames_dir, w)
         else (target_path, logger WARNING (NoFramesSubdir target_path) w))
      else (target_path, w))"

text \<open>Lines 144--148: the deletion loop; a failed removal is logged and skipped.\<close>

fun remove_files :: "path list \<Rightarrow> world \<Rightarrow> world" where
  "remove_files [] w = w"
| "remove_files (p_file # ps) w =
     remove_files ps
       (case os_remove p_file w of
          Inr w' \<Rightarrow> w'
        | Inl e \<Rightarrow> logger ERROR (DeleteFileError p_file e) w)"

text \<open>Lines 150--155: pruning of an emptied directory named \<^verbatim>\<open>frames\<close>.\<close>

definition prune_frames_dir :: "path \<Rightarrow> world \<Rightarrow> world" where
  "prune_frames_dir d w =
     (if lower (name d) = ''frames'' then
        (case iterdir w d of
           Inl e \<Rightarrow> logger WARNING (CouldNotRemoveDir d e) w
         | Inr entries \<Rightarrow>
             (if entries = [] then
                (case rmtree d w of
                   Inl e \<Rightarrow> logger WARNING (CouldNotRemoveDir d e) w
                 | Inr w' \<Rightarrow> logger INFO (RemovedEmptyDir d) w')
              else w))
      else w)"

definition delete_frames :: "path \<Rightarrow> world \<Rightarrow> (py_exc + unit) \<times> world" where
  "delete_frames target_path w =
     (if \<not> exists w target_path
      then (Inr (), logger WARNING (PathNotExist target_path) w)
      else
        (case frames_dir_to_clean target_path w of
           (d, w1) \<Rightarrow>
             if \<not> is_dir w1 d
             then (Inl (ValueError ''Resolved path is not a directory''), w1)
             else
               (let png_files = glob_png w1 d in
                if png_files = []
                then (Inr (), logger INFO (NoPngFound d) w1)
                else
                  (let w2 = logger INFO (Deleting (length png_files) d) w1;
                       w3 = remove_files png_files w2
                   in (Inr (), prune_frames_dir d w3)))))"

section \<open>Python operations on parsed JSON values\<close>

definition truthy :: "json \<Rightarrow> bool" where
  "truthy v =
     (case v of
        JNull \<Rightarrow> False
      | JBool b \<Rightarrow> b
      | JInt i \<Rightarrow> i \<noteq> 0
      | JFloat r \<Rightarrow> r \<noteq> 0
      | JStr s \<Rightarrow> s \<noteq> []
      | JList l \<Rightarrow> l \<noteq> []
      | JObj kv \<Rightarrow> kv \<noteq> [])"

text \<open>\<^verbatim>\<open>'/' in v\<close>: membership for strings, lists and dict keys, a \<open>TypeError\<close> otherwise.\<close>

definition contains_slash :: "json \<Rightarrow> py_exc + bool" where
  "contains_slash v =
     (case v of
        JStr s \<Rightarrow> Inr (CHR ''/'' \<in> set s)
      | JList l \<Rightarrow> Inr (JStr ''/'' \<in> set l)
      | JObj kv \<Rightarrow> Inr (''/'' \<in> fst ` set kv)
      | _ \<Rightarrow> Inl TypeError)"

text \<open>\<^verbatim>\<open>d.get(k)\<close>: a missing key gives \<^verbatim>\<open>None\<close>, which is also what JSON \<^verbatim>\<open>null\<close> parses to.\<close>

definition dict_get :: "(string \<times> json) list \<Rightarrow> string \<Rightarrow> json" where
  "dict_get d k = (case map_of d k of None \<Rightarrow> JNull | Some v \<Rightarrow> v)"

text \<open>
  \<^verbatim>\<open>int(s)\<close> on an ASCII string: the surrounding whitespace (tab, line feed, vertical tab,
  form feed, carriage return, space) is skipped, then come an optional sign and decimal
  digits, where single underscores may separate digits.
\<close>

definition is_space :: "char \<Rightarrow> bool" where
  "is_space c = (c \<in> set [CHR 0x09, CHR 0x0A, CHR 0x0B, CHR 0x0C, CHR 0x0D, CHR 0x20])"

definition strip :: "string \<Rightarrow> string" where
  "strip s = rev (dropWhile is_space (rev (dropWhile is_space s)))"

definition digit_of :: "char \<Rightarrow> nat option" where
  "digit_of c = map_of (zip ''0123456789'' [0, 1, 2, 3, 4, 5, 6, 7, 8, 9]) c"

fun digits_from :: "nat \<Rightarrow> string \<Rightarrow> nat option" where
  "digits_from acc [] = Some acc"
| "digits_from acc (c # cs) =
     (case digit_of c of
        Some d \<Rightarrow> digits_from (10 * acc + d) cs
      | None \<Rightarrow>
          (if c = CHR ''_'' then
             (case cs of
                [] \<Rightarrow> None
              | c' # cs' \<Rightarrow>
                  (case digit_of c' of
                     Some d \<Rightarrow> digits_from (10 * acc + d) cs'
                   | None \<Rightarrow> None))
           else None))"

definition py_nat :: "string \<Rightarrow> nat option" where
  "py_nat s =
     (case s of
        [] \<Rightarrow> None
      | c # cs \<Rightarrow> (case digit_of c of Some d \<Rightarrow> digits_from d cs | None \<Rightarrow> None))"

definition ascii_int :: "string \<Rightarrow> int option" where
  "ascii_int s =
     (case strip s of
        [] \<Rightarrow> None
      | c # cs \<Rightarrow>
          (if c = CHR ''-'' then map_option (\<lambda>n. - int n) (py_nat cs)
           else if c = CHR ''+'' then map_option int (py_nat cs)
           else map_option int (py_nat (c # cs))))"

text \<open>
  \<^verbatim>\<open>int(s)\<close> in general (\<open>None\<close> when Python raises \<open>ValueError\<close>). Outside ASCII Python
  also accepts the decimal digits and the whitespace of other scripts, and it refuses
  literals of more than 4300 digits. A string with a byte outside ASCII, or longer than
  4300 characters, is therefore left to the parameter \<open>parse_int\<close>; every other string is
  read by \<open>ascii_int\<close>.
\<close>

definition is_ascii :: "string \<Rightarrow> bool" where
  "is_ascii s = list_all (\<lambda>c. \<not> digit7 c) s"

definition py_int :: "(string \<Rightarrow> int option) \<Rightarrow> string \<Rightarrow> int option" where
  "py_int parse_int s =
     (if is_ascii s \<and> length s \<le> 4300 then ascii_int s else parse_int s)"

text \<open>
  \<^verbatim>\<open>float(v)\<close>. Parsing a string as a float is left to the parameter \<open>parse_float\<close>
  (\<open>None\<close> when Python raises \<open>ValueError\<close>). An integer beyond the float range raises
  \<open>OverflowError\<close>.
\<close>

definition py_float :: "(string \<Rightarrow> real option) \<Rightarrow> json \<Rightarrow> py_exc + real" where
  "py_float parse_float v =
     (case v of
        JStr s \<Rightarrow>
          (case parse_float s of
             None \<Rightarrow> Inl (ValueError ''could not convert string to float'')
           | Some r \<Rightarrow> Inr r)
      | JInt i \<Rightarrow>
          (if float_overflow (real_of_int i) then Inl OverflowError else Inr (real_of_int i))
      | JFloat r \<Rightarrow> Inr r
      | JBool b \<Rightarrow> Inr (if b then 1 else 0)
      | _ \<Rightarrow> Inl TypeError)"

section \<open>Metadata Prober: \<^verbatim>\<open>_get_video_metadata\<close>\<close>

text \<open>
  The external tool is a black box. Probing a path either yields the parsed description
  (a list of stream dictionaries and the optional container dictionary), or fails with the
  tool's diagnostic output (\<^verbatim>\<open>ffmpeg.Error\<close>), or the tool cannot be started at all.
\<close>

type_synonym stream = "(string \<times> json) list"

record probe =
  streams :: "stream list"
  format :: "stream option"

datatype probe_outcome = Probed probe | ProbeFailed string | ProbeNotStarted

datatype run_outcome = Completed | CalledProcessError string string | RunNotStarted

datatype load_outcome = Loaded json | DecodeError | UnicodeError

record env =
  ffprobe :: "path \<Rightarrow> probe_outcome"
  run_ffmpeg :: "ffmpeg_cmd \<Rightarrow> world \<Rightarrow> run_outcome \<times> files"
  json_load :: "path \<Rightarrow> load_outcome"
  float_of_str :: "string \<Rightarrow> real option"
  int_of_str :: "string \<Rightarrow> int option"
  script_dir :: path

record metadata =
  duration_s :: real
  width :: json
  height :: json
  fps :: real

text \<open>Line 27: the first stream whose \<^verbatim>\<open>codec_type\<close> is \<^verbatim>\<open>video\<close>.\<close>

fun find_video :: "stream list \<Rightarrow> py_exc + stream option" where
  "find_video [] = Inr None"
| "find_video (s # ss) =
     (case map_of s ''codec_type'' of
        None \<Rightarrow> Inl (KeyError ''codec_type'')
      | Some v \<Rightarrow> (if v = JStr ''video'' then Inr (Some s) else find_video ss))"

text \<open>
  Lines 37--38 and 44--45: \<^verbatim>\<open>num, den = map(int, s.split('/'))\<close>, then the quotient.
  The lazy \<^verbatim>\<open>map\<close> converts a third piece before the unpacking complains about it.
  The quotient of two integers raises \<open>OverflowError\<close> when it is beyond the float range.
\<close>

definition unpack_rate :: "(string \<Rightarrow> int option) \<Rightarrow> string list \<Rightarrow> py_exc + int \<times> int" where
  "unpack_rate parse_int pieces =
     (case pieces of
        [] \<Rightarrow> Inl (ValueError ''not enough values to unpack'')
      | [a] \<Rightarrow>
          (case py_int parse_int a of
             None \<Rightarrow> Inl (ValueError ''invalid literal for int()'')
           | Some n \<Rightarrow> Inl (ValueError ''not enough values to unpack''))
      | a # b # further \<Rightarrow>
          (case py_int parse_int a of
             None \<Rightarrow> Inl (ValueError ''invalid literal for int()'')
           | Some num \<Rightarrow>
               (case py_int parse_int b of
                  None \<Rightarrow> Inl (ValueError ''invalid literal for int()'')
                | Some den \<Rightarrow>
                    (case further of
                       [] \<Rightarrow> Inr (num, den)
                     | c # cs \<Rightarrow>
                         (case py_int parse_int c of
                            None \<Rightarrow> Inl (ValueError ''invalid literal for int()'')
                          | Some n \<Rightarrow> Inl (ValueError ''too many values to unpack''))))))"

definition rate_of_ratio :: "(string \<Rightarrow> int option) \<Rightarrow> json \<Rightarrow> py_exc + real" where
  "rate_of_ratio parse_int v =
     (case v of
        JStr s \<Rightarrow>
          (case unpack_rate parse_int (split_slash s) of
             Inl x \<Rightarrow> Inl x
           | Inr (num, den) \<Rightarrow>
               (if den \<noteq> 0 then
                  (if float_overflow (real_of_int num / real_of_int den) then Inl OverflowError
                   else Inr (real_of_int num / real_of_int den))
                else Inr 0))
      | _ \<Rightarrow> Inl AttributeError)"

text \<open>Lines 35--47: the frame rate of the video stream.\<close>

definition frame_rate ::
  "(string \<Rightarrow> real option) \<Rightarrow> (string \<Rightarrow> int option) \<Rightarrow> stream \<Rightarrow> py_exc + real" where
  "frame_rate parse_float parse_int video_stream =
     (let avg_frame_rate = dict_get video_stream ''avg_frame_rate'' in
      if truthy avg_frame_rate then
        (case contains_slash avg_frame_rate of
           Inl x \<Rightarrow> Inl x
         | Inr True \<Rightarrow> rate_of_ratio parse_int avg_frame_rate
         | Inr False \<Rightarrow> py_float parse_float avg_frame_rate)
      else
        (let r_frame_rate = dict_get video_stream ''r_frame_rate'' in
         if truthy r_frame_rate then
           (case contains_slash r_frame_rate of
              Inl x \<Rightarrow> Inl x
            | Inr True \<Rightarrow> rate_of_ratio parse_int r_frame_rate
            | Inr False \<Rightarrow> Inr 0)
         else Inr 0))"

text \<open>Lines 27--47: everything between the probe call and the warning, without effects.\<close>

definition parse_probe ::
  "(string \<Rightarrow> real option) \<Rightarrow> (string \<Rightarrow> int option) \<Rightarrow> probe \<Rightarrow> py_exc + metadata" where
  "parse_probe parse_float parse_int pr =
     (case find_video (streams pr) of
        Inl x \<Rightarrow> Inl x
      | Inr None \<Rightarrow> Inl (ValueError ''No video stream found'')
      | Inr (Some video_stream) \<Rightarrow>
          (let container_duration =
                 (case format pr of
                    None \<Rightarrow> JFloat 0
                  | Some f \<Rightarrow> (case map_of f ''duration'' of None \<Rightarrow> JFloat 0 | Some v \<Rightarrow> v));
               duration =
                 (case map_of video_stream ''duration'' of
                    None \<Rightarrow> container_duration
                  | Some v \<Rightarrow> v)
           in case py_float parse_float duration of
                Inl x \<Rightarrow> Inl x
              | Inr d \<Rightarrow>
                  (case map_of video_stream ''width'' of
                     None \<Rightarrow> Inl (KeyError ''width'')
                   | Some wd \<Rightarrow>
                       (case map_of video_stream ''height'' of
                          None \<Rightarrow> Inl (KeyError ''height'')
                        | Some ht \<Rightarrow>
                            (case frame_rate parse_float parse_int video_stream of
                               Inl x \<Rightarrow> Inl x
                             | Inr r \<Rightarrow>
                                 Inr \<lparr>duration_s = d, width = wd, height = ht, fps = r\<rparr>)))))"

text \<open>
  The whole function. The check for the file precedes the \<^verbatim>\<open>try\<close>; inside it the first
  handler takes the tool's failure, the second one every other exception, the
  \<open>ValueError\<close> of line 29 included. Both raise the same \<open>RuntimeError\<close>.
\<close>

definition get_video_metadata :: "env \<Rightarrow> path \<Rightarrow> world \<Rightarrow> (py_exc + metadata) \<times> world" where
  "get_video_metadata e video_path w =
     (if \<not> exists w video_path then (Inl (FileNotFoundError ''Video file not found''), w)
      else
        (let w1 = w\<lparr>calls := calls w @ [ProbeCall video_path]\<rparr> in
         case ffprobe e video_path of
           ProbeFailed stderr \<Rightarrow>
             (Inl (RuntimeError ''Could not get video metadata''),
              logger ERROR (FFprobeError video_path stderr) w1)
         | ProbeNotStarted \<Rightarrow>
             (Inl (RuntimeError ''Could not get video metadata''),
              logger ERROR (MetadataError video_path (FileNotFoundError ''ffprobe'')) w1)
         | Probed pr \<Rightarrow>
             (case parse_probe (float_of_str e) (int_of_str e) pr of
                Inl x \<Rightarrow>
                  (Inl (RuntimeError ''Could not get video metadata''),
                   logger ERROR (MetadataError video_path x) w1)
              | Inr m \<Rightarrow>
                  (Inr m,
                   if duration_s m \<le> 0 \<or> fps m \<le> 0
                   then logger WARNING (InvalidMetadata video_path (duration_s m) (fps m)) w1
                   else w1))))"

section \<open>Rate Planner and Frame Extractor: \<^verbatim>\<open>extract_frames\<close>\<close>

text \<open>
  Lines 76--88: the target sampling rate. In line 82 the frame count, an integer, is
  converted to a float before the division, which raises \<open>OverflowError\<close> beyond the float
  range.
\<close>

definition target_fps ::
  "path \<Rightarrow> int option \<Rightarrow> real option \<Rightarrow> real \<Rightarrow> world \<Rightarrow> (py_exc + real) \<times> world" where
  "target_fps video_path num_frames interval_sec duration w =
     (case num_frames of
        Some n \<Rightarrow>
          (if duration \<le> 0 then (Inr 1, logger WARNING (DurationDefault video_path) w)
           else if float_overflow (real_of_int n) then (Inl OverflowError, w)
           else (Inr (real_of_int n / duration), w))
      | None \<Rightarrow>
          (case interval_sec of
             Some i \<Rightarrow>
               (if i \<le> 0 then (Inl (ValueError ''Interval seconds must be greater than 0.''), w)
                else (Inr (1 / i), w))
           | None \<Rightarrow>
               (Inl (ValueError ''Either num_frames or interval_sec must be specified.''), w)))"

text \<open>\<^verbatim>\<open>mkdir(parents=True, exist_ok=True)\<close>: fails where a component is a regular file.\<close>

fun mkdirs :: "string list \<Rightarrow> string list \<Rightarrow> files \<Rightarrow> py_exc + files" where
  "mkdirs pre [] fs = Inr fs"
| "mkdirs pre (c # cs) fs =
     (case lookup fs (pre @ [c]) of
        Some File \<Rightarrow> Inl OSError
      | Some Dir \<Rightarrow> mkdirs (pre @ [c]) cs fs
      | None \<Rightarrow> mkdirs (pre @ [c]) cs (fs @ [(pre @ [c], Dir)]))"

definition mkdir_parents :: "path \<Rightarrow> world \<Rightarrow> py_exc + world" where
  "mkdir_parents p w =
     (case mkdirs [] (abspath w p) (files w) of
        Inl x \<Rightarrow> Inl x
      | Inr fs \<Rightarrow> Inr (w\<lparr>files := fs\<rparr>))"

text \<open>Lines 90--109: the guard on the rate, the output directory, the command and its run.\<close>

definition run_extraction ::
  "env \<Rightarrow> path \<Rightarrow> path \<Rightarrow> real \<Rightarrow> world \<Rightarrow> (py_exc + unit) \<times> world" where
  "run_extraction e video_path output_dir rate w =
     (if rate \<le> 0 then (Inr (), logger ERROR (InvalidTargetFPS video_path) w)
      else
        (case mkdir_parents output_dir w of
           Inl x \<Rightarrow> (Inl x, w)
         | Inr w1 \<Rightarrow>
             (let ffmpeg_cmd =
                    \<lparr>cmd_input = video_path, cmd_fps = rate,
                     cmd_output = joinpath output_dir ''frame_%04d.png'', cmd_vsync = ''0''\<rparr>;
                  w2 = logger INFO (FFmpegCommand (name video_path) ffmpeg_cmd) w1;
                  w3 = w2\<lparr>calls := calls w2 @ [RunCall ffmpeg_cmd]\<rparr>
              in case run_ffmpeg e ffmpeg_cmd w3 of
                   (Completed, fs) \<Rightarrow>
                     (Inr (), logger INFO (FramesExtracted output_dir) (w3\<lparr>files := fs\<rparr>))
                 | (CalledProcessError out err, fs) \<Rightarrow>
                     (Inl (RuntimeError ''FFmpeg failed during extraction.''),
                      logger ERROR (FFmpegFailed (name video_path) out err) (w3\<lparr>files := fs\<rparr>))
                 | (RunNotStarted, fs) \<Rightarrow> (Inl (FileNotFoundError ''ffmpeg''), w3))))"

text \<open>Lines 73--109: the body of the \<^verbatim>\<open>try\<close>.\<close>

definition extract_body ::
  "env \<Rightarrow> path \<Rightarrow> path \<Rightarrow> int option \<Rightarrow> real option \<Rightarrow> world \<Rightarrow> (py_exc + unit) \<times> world" where
  "extract_body e video_path output_dir num_frames interval_sec w =
     (case get_video_metadata e video_path w of
        (Inl x, w1) \<Rightarrow> (Inl x, w1)
      | (Inr m, w1) \<Rightarrow>
          (case target_fps video_path num_frames interval_sec (duration_s m) w1 of
             (Inl x, w2) \<Rightarrow> (Inl x, w2)
           | (Inr rate, w2) \<Rightarrow> run_extraction e video_path output_dir rate w2))"

definition extract_frames ::
  "env \<Rightarrow> path \<Rightarrow> path \<Rightarrow> int option \<Rightarrow> real option \<Rightarrow> world \<Rightarrow> (py_exc + unit) \<times> world" where
  "extract_frames e video_path output_dir num_frames interval_sec w =
     (if \<not> exists w video_path then (Inl (FileNotFoundError ''Video file not found''), w)
      else if \<not> is_file w video_path then (Inl (ValueError ''Provided path is not a file''), w)
      else
        (case extract_body e video_path output_dir num_frames interval_sec w of
           (Inl x, w') \<Rightarrow> (Inl x, logger CRITICAL (CriticalExtraction (name video_path) x) w')
         | (Inr u, w') \<Rightarrow> (Inr u, w')))"

section \<open>Job Driver: \<^verbatim>\<open>setup_ffmpeg_path\<close> and \<^verbatim>\<open>main\<close>\<close>

definition find_ffmpeg_bin_directory :: "env \<Rightarrow> world \<Rightarrow> path option" where
  "find_ffmpeg_bin_directory e w =
     (let bin_dir = joinpath (script_dir e) ''bin'' in
      if is_dir w bin_dir \<and> is_file w (joinpath bin_dir ''ffmpeg.exe'') then Some bin_dir
      else None)"

definition setup_ffmpeg_path :: "env \<Rightarrow> world \<Rightarrow> world" where
  "setup_ffmpeg_path e w =
     (case find_ffmpeg_bin_directory e w of
        Some bin_path \<Rightarrow>
          (if bin_path \<notin> set (environ_PATH w)
           then logger INFO (AddedToPATH bin_path) (w\<lparr>environ_PATH := environ_PATH w @ [bin_path]\<rparr>)
           else logger INFO (AlreadyInPATH bin_path) w)
      | None \<Rightarrow> logger ERROR BinariesNotFound w)"

text \<open>The parsed command line; argparse has filled absent options with \<^verbatim>\<open>None\<close>.\<close>

datatype args =
    Extract string "string option" "int option" "real option"
  | Delete string

text \<open>How the process ends: \<open>main\<close> returns, calls \<^verbatim>\<open>sys.exit\<close>, or dies of an exception.\<close>

datatype outcome = Returned | SysExit nat | Uncaught py_exc

fun exit_status :: "outcome \<Rightarrow> nat" where
  "exit_status Returned = 0"
| "exit_status (SysExit n) = n"
| "exit_status (Uncaught x) = 1"

fun contains_sub :: "string \<Rightarrow> string \<Rightarrow> bool" where
  "contains_sub xs [] = (xs = [])"
| "contains_sub xs (y # ys) = (take (length xs) (y # ys) = xs \<or> contains_sub xs ys)"

fun paths_of :: "json list \<Rightarrow> py_exc + path list" where
  "paths_of [] = Inr []"
| "paths_of (v # vs) =
     (case v of
        JStr s \<Rightarrow> (case paths_of vs of Inl x \<Rightarrow> Inl x | Inr ps \<Rightarrow> Inr (Path s # ps))
      | _ \<Rightarrow> Inl TypeError)"

text \<open>
  Lines 198--200 on the loaded document: \<^verbatim>\<open>'videos' not in data\<close> is a key test on a
  dictionary, an element test on a list and a substring test on a string;
  \<^verbatim>\<open>data['videos']\<close> then only works on a dictionary.
\<close>

definition manifest_videos :: "json \<Rightarrow> py_exc + path list" where
  "manifest_videos data =
     (case data of
        JObj kv \<Rightarrow>
          (case map_of kv ''videos'' of
             Some (JList ps) \<Rightarrow> paths_of ps
           | _ \<Rightarrow> Inl (ValueError ''JSON must have a videos key with a list of file paths.''))
      | JList l \<Rightarrow>
          (if JStr ''videos'' \<in> set l then Inl TypeError
           else Inl (ValueError ''JSON must have a videos key with a list of file paths.''))
      | JStr s \<Rightarrow>
          (if contains_sub ''videos'' s then Inl TypeError
           else Inl (ValueError ''JSON must have a videos key with a list of file paths.''))
      | _ \<Rightarrow> Inl TypeError)"

text \<open>Line 201: the exceptions the manifest handler catches.\<close>

fun handled :: "py_exc \<Rightarrow> bool" where
  "handled JSONDecodeError = True"
| "handled (ValueError m) = True"
| "handled (KeyError k) = True"
| "handled x = False"

text \<open>Lines 194--203: reading the batch manifest.\<close>

definition load_manifest :: "env \<Rightarrow> path \<Rightarrow> world \<Rightarrow> (outcome + path list) \<times> world" where
  "load_manifest e input_path w =
     (let w1 = logger INFO (DetectedJson input_path) w in
      if is_dir w1 input_path then (Inl (Uncaught OSError), w1)
      else
        (case json_load e input_path of
           DecodeError \<Rightarrow> (Inl (SysExit 1), logger ERROR (BatchParseFailed JSONDecodeError) w1)
         | UnicodeError \<Rightarrow>
             (Inl (SysExit 1), logger ERROR (BatchParseFailed (ValueError ''UnicodeDecodeError'')) w1)
         | Loaded data \<Rightarrow>
             (case manifest_videos data of
                Inr videos \<Rightarrow> (Inr videos, w1)
              | Inl x \<Rightarrow>
                  (if handled x then (Inl (SysExit 1), logger ERROR (BatchParseFailed x) w1)
                   else (Inl (Uncaught x), w1)))))"

text \<open>Lines 211--214: the output directory of one video among \<open>n\<close>.\<close>

definition output_dir_for :: "nat \<Rightarrow> string option \<Rightarrow> path \<Rightarrow> path" where
  "output_dir_for n output_dir video_path =
     (case output_dir of
        None \<Rightarrow> joinpath (parent video_path) ''frames''
      | Some d \<Rightarrow> (if n = 1 \<and> d \<noteq> [] then Path d else joinpath (parent video_path) ''frames''))"

text \<open>Lines 216--218: one extraction with the handler of the loop body around it.\<close>

definition try_extract ::
  "env \<Rightarrow> path \<Rightarrow> path \<Rightarrow> int option \<Rightarrow> real option \<Rightarrow> world \<Rightarrow> world" where
  "try_extract e video_path output_dir num_frames interval_sec w =
     (case extract_frames e video_path output_dir num_frames interval_sec w of
        (Inr u, w') \<Rightarrow> w'
      | (Inl x, w') \<Rightarrow> logger ERROR (CouldNotProcess (name video_path) x) w')"

text \<open>Lines 208--218: the loop over the videos, in list order.\<close>

fun process_videos ::
  "env \<Rightarrow> string option \<Rightarrow> int option \<Rightarrow> real option \<Rightarrow> nat \<Rightarrow> path list \<Rightarrow> world \<Rightarrow> world" where
  "process_videos e output_dir num_frames interval_sec n [] w = w"
| "process_videos e output_dir num_frames interval_sec n (video_path # rest) w =
     process_videos e output_dir num_frames interval_sec n rest
       (try_extract e video_path (output_dir_for n output_dir video_path) num_frames interval_sec w)"

definition main :: "env \<Rightarrow> args \<Rightarrow> world \<Rightarrow> outcome \<times> world" where
  "main e a w =
     (let w0 = logger INFO SetupCompleted (setup_ffmpeg_path e w) in
      case a of
        Extract p output_dir num_frames interval_sec \<Rightarrow>
          (let input_path = Path p in
           if \<not> exists w0 input_path
           then (SysExit 1, logger ERROR (InputPathMissing input_path) w0)
           else
             (case (if lower (suffix input_path) = ''.json'' then load_manifest e input_path w0
                    else (Inr [input_path], w0)) of
                (Inl out, w1) \<Rightarrow> (out, w1)
              | (Inr videos_to_process, w1) \<Rightarrow>
                  (Returned,
                   process_videos e output_dir num_frames interval_sec
                     (length videos_to_process) videos_to_process
                     (logger INFO (FoundVideos (length videos_to_process)) w1))))
      | Delete t \<Rightarrow>
          (case delete_frames (Path t) w0 of
             (Inr u, w1) \<Rightarrow> (Returned, w1)
           | (Inl x, w1) \<Rightarrow> (SysExit 1, logger ERROR (DeleteFailed x) w1)))"

section \<open>Example worlds, environments and manifests\<close>

text \<open>A directory \<^verbatim>\<open>/v/frames\<close> holding \<^verbatim>\<open>a.png\<close>, \<^verbatim>\<open>b.png\<close> and \<^verbatim>\<open>c.txt\<close>.\<close>

definition cleanup_world :: world where
  "cleanup_world =
     \<lparr>files = [([''v''], Dir), ([''v'', ''frames''], Dir),
               ([''v'', ''frames'', ''a.png''], File),
               ([''v'', ''frames'', ''b.png''], File),
               ([''v'', ''frames'', ''c.txt''], File)],
      cwd = [], environ_PATH = [], logged = [], calls = []\<rparr>"

text \<open>
  A video directory \<^verbatim>\<open>/v\<close> with a picture \<^verbatim>\<open>a.png\<close> next to its \<^verbatim>\<open>frames\<close>
  subdirectory, which holds one extracted frame.
\<close>

definition thumbnail_world :: world where
  "thumbnail_world =
     \<lparr>files = [([''v''], Dir), ([''v'', ''a.png''], File), ([''v'', ''frames''], Dir),
               ([''v'', ''frames'', ''f.png''], File)],
      cwd = [], environ_PATH = [], logged = [], calls = []\<rparr>"

text \<open>An empty \<^verbatim>\<open>frames\<close> directory.\<close>

definition empty_frames_world :: world where
  "empty_frames_world =
     \<lparr>files = [([''v''], Dir), ([''v'', ''frames''], Dir)],
      cwd = [], environ_PATH = [], logged = [], calls = []\<rparr>"

text \<open>
  Probe responses: an audio and a video stream; an audio stream only; a video stream of
  duration zero. \<open>sample_float\<close> reads the duration strings they use.
\<close>

definition sample_probe :: probe where
  "sample_probe =
     \<lparr>streams =
        [[(''codec_type'', JStr ''audio''), (''duration'', JStr ''10.5'')],
         [(''codec_type'', JStr ''video''), (''duration'', JStr ''10.0''),
          (''width'', JInt 1920), (''height'', JInt 1080),
          (''avg_frame_rate'', JStr ''30000/1001''), (''r_frame_rate'', JStr ''30/1'')]],
      format = Some [(''duration'', JStr ''10.5'')]\<rparr>"

definition audio_probe :: probe where
  "audio_probe =
     \<lparr>streams = [[(''codec_type'', JStr ''audio''), (''duration'', JStr ''10.5'')]],
      format = Some [(''duration'', JStr ''10.5'')]\<rparr>"

definition still_probe :: probe where
  "still_probe =
     \<lparr>streams =
        [[(''codec_type'', JStr ''video''), (''duration'', JStr ''0.0''),
          (''width'', JInt 640), (''height'', JInt 480),
          (''avg_frame_rate'', JStr ''25/1'')]],
      format = None\<rparr>"

definition sample_float :: "string \<Rightarrow> real option" where
  "sample_float s =
     (if s = ''10.0'' then Some 10 else if s = ''10.5'' then Some (21 / 2)
      else if s = ''0.0'' then Some 0 else None)"

text \<open>
  An environment in which probing fails for \<^verbatim>\<open>v1.mp4\<close>, finds only audio in
  \<^verbatim>\<open>song.mp4\<close> and a zero duration in \<^verbatim>\<open>still.mp4\<close>; extraction writes one frame into
  the output directory; every manifest file holds the given document. No string outside
  the ASCII fragment of \<open>py_int\<close> is read as an integer.
\<close>

definition sample_env :: "json \<Rightarrow> env" where
  "sample_env manifest =
     \<lparr>ffprobe = (\<lambda>p. if name p = ''v1.mp4'' then ProbeFailed ''moov atom not found''
                     else if name p = ''song.mp4'' then Probed audio_probe
                     else if name p = ''still.mp4'' then Probed still_probe
                     else Probed sample_probe),
      run_ffmpeg = (\<lambda>c w. (Completed,
                     files w @ [(abspath w (parent (cmd_output c)) @ [''frame_0001.png''], File)])),
      json_load = (\<lambda>p. Loaded manifest),
      float_of_str = sample_float,
      int_of_str = (\<lambda>s. None),
      script_dir = PurePath ''/'' [''app'']\<rparr>"

definition sample_world :: world where
  "sample_world =
     \<lparr>files = [([''a''], Dir), ([''a'', ''v1.mp4''], File), ([''a'', ''song.mp4''], File),
               ([''a'', ''still.mp4''], File),
               ([''b''], Dir), ([''b'', ''v2.mp4''], File), ([''batch.json''], File)],
      cwd = [], environ_PATH = [], logged = [], calls = []\<rparr>"

text \<open>The loaded manifest is a dictionary whose \<^verbatim>\<open>videos\<close> entry is a list.\<close>

definition has_videos_list :: "load_outcome \<Rightarrow> bool" where
  "has_videos_list lo =
     (case lo of
        Loaded (JObj kv) \<Rightarrow> (case map_of kv ''videos'' of Some (JList ps) \<Rightarrow> True | _ \<Rightarrow> False)
      | _ \<Rightarrow> False)"

text \<open>Manifests: two videos, one video, and the wrong key.\<close>

definition two_videos :: json where
  "two_videos = JObj [(''videos'', JList [JStr ''/a/v1.mp4'', JStr ''/b/v2.mp4''])]"

definition one_video :: json where
  "one_video = JObj [(''videos'', JList [JStr ''/b/v2.mp4''])]"

definition wrong_key :: json where
  "wrong_key = JObj [(''clips'', JList [])]"

section \<open>Properties of the world operations\<close>

lemmas path_simps = Path_def name_def parent_def joinpath_def lower_def lower_char_def

lemmas fs_simps = abspath_def lookup_def exists_def is_dir_def is_file_def child_of_def
  fnmatch_png_def is_prefix_def logger_def

lemma files_logger: "files (logger l e w) = files w"
  and cwd_logger: "cwd (logger l e w) = cwd w"
  and calls_logger: "calls (logger l e w) = calls w"
  by (simp_all add: logger_def)

lemma abspath_logger: "abspath (logger l e w) p = abspath w p"
  by (simp add: abspath_def cwd_logger)

lemma is_dir_logger: "is_dir (logger l e w) p = is_dir w p"
  and is_file_logger: "is_file (logger l e w) p = is_file w p"
  and exists_logger: "exists (logger l e w) p = exists w p"
  by (simp_all add: is_dir_def is_file_def exists_def files_logger abspath_logger)

lemma glob_png_logger: "glob_png (logger l e w) d = glob_png w d"
  by (simp add: glob_png_def files_logger abspath_logger)

lemma abspath_joinpath: "abspath w (joinpath d c) = abspath w d @ [c]"
  by (simp add: abspath_def joinpath_def)

lemma frames_dir_files: "files (snd (frames_dir_to_clean t w)) = files w"
  and frames_dir_cwd: "cwd (snd (frames_dir_to_clean t w)) = cwd w"
  by (simp_all add: frames_dir_to_clean_def Let_def files_logger cwd_logger)

lemma wf_files_listed: "wf_files fs \<Longrightarrow> listed fs"
  by (auto simp: wf_files_def listed_def)

lemma listed_filter: "listed fs \<Longrightarrow> listed (filter P fs)"
  by (auto simp: listed_def distinct_map_filter)

lemma os_remove_cwd: "os_remove p w = Inr w' \<Longrightarrow> cwd w' = cwd w"
  by (auto simp: os_remove_def split: if_splits)

lemma os_remove_files:
  assumes "listed (files w)"
  shows "files (case os_remove p w of Inr w' \<Rightarrow> w' | Inl e \<Rightarrow> logger ERROR (DeleteFileError p e) w)
         = filter (\<lambda>(q, k). \<not> (k = File \<and> q = abspath w p)) (files w)"
proof (cases "is_file w p")
  case True
  then have m: "map_of (files w) (abspath w p) = Some File"
    by (auto simp: is_file_def lookup_def split: if_splits)
  have "\<And>q k. (q, k) \<in> set (files w) \<Longrightarrow> q = abspath w p \<Longrightarrow> k = File"
    using assms m by (auto simp: listed_def)
  then have "filter (\<lambda>(q, k). q \<noteq> abspath w p) (files w)
           = filter (\<lambda>(q, k). \<not> (k = File \<and> q = abspath w p)) (files w)"
    by (intro filter_cong) auto
  with True show ?thesis by (simp add: os_remove_def)
next
  case False
  have "\<And>q k. (q, k) \<in> set (files w) \<Longrightarrow> \<not> (k = File \<and> q = abspath w p)"
  proof
    fix q k assume in_fs: "(q, k) \<in> set (files w)" and "k = File \<and> q = abspath w p"
    then have "(abspath w p, File) \<in> set (files w)" by simp
    moreover from this assms have "abspath w p \<noteq> []" by (force simp: listed_def)
    ultimately have "is_file w p"
      using assms by (simp add: is_file_def lookup_def listed_def)
    with False show False by simp
  qed
  then have "filter (\<lambda>(q, k). \<not> (k = File \<and> q = abspath w p)) (files w) = files w"
    by (intro filter_True) auto
  with False show ?thesis by (simp add: os_remove_def files_logger)
qed

lemma os_remove_step_cwd:
  "cwd (case os_remove p w of Inr w' \<Rightarrow> w' | Inl e \<Rightarrow> logger ERROR (DeleteFileError p e) w) = cwd w"
  by (auto simp: os_remove_def cwd_logger)

lemma remove_files_cwd: "cwd (remove_files ps w) = cwd w"
  by (induction ps arbitrary: w) (simp_all add: os_remove_step_cwd)

lemma remove_files_files:
  "listed (files w) \<Longrightarrow>
   files (remove_files ps w) = filter (\<lambda>(q, k). \<not> (k = File \<and> q \<in> abspath w ` set ps)) (files w)"
proof (induction ps arbitrary: w)
  case Nil
  then show ?case by simp
next
  case (Cons p ps)
  let ?w = "case os_remove p w of Inr w' \<Rightarrow> w' | Inl e \<Rightarrow> logger ERROR (DeleteFileError p e) w"
  have f: "files ?w = filter (\<lambda>(q, k). \<not> (k = File \<and> q = abspath w p)) (files w)"
    using Cons.prems by (rule os_remove_files)
  have a: "abspath ?w = abspath w"
    by (rule ext) (simp add: abspath_def os_remove_step_cwd)
  have "listed (files ?w)"
    unfolding f using Cons.prems by (rule listed_filter)
  from Cons.IH [OF this] show ?case
    by (simp add: a f) (rule filter_cong, auto)
qed


lemma wf_files_filter:
  assumes "wf_files fs" and "\<And>q k. (q, k) \<in> set fs \<Longrightarrow> \<not> P (q, k) \<Longrightarrow> k = File"
  shows "wf_files (filter P fs)"
proof -
  have "(butlast q, Dir) \<in> set (filter P fs)"
    if "(q, k) \<in> set fs" "butlast q \<noteq> []" for q k
  proof -
    from that assms(1) have "(butlast q, Dir) \<in> set fs"
      by (auto simp: wf_files_def)
    moreover from this assms(2) have "P (butlast q, Dir)" by blast
    ultimately show ?thesis by simp
  qed
  moreover have "q \<noteq> []" if "(q, k) \<in> set fs" for q k
    using that assms(1) by (auto simp: wf_files_def)
  moreover have "distinct (map fst (filter P fs))"
    using assms(1) by (simp add: wf_files_def distinct_map_filter)
  ultimately show ?thesis
    unfolding wf_files_def by auto
qed

lemma wf_files_child:
  assumes "wf_files fs"
  shows "(a @ r, k) \<in> set fs \<Longrightarrow> r \<noteq> [] \<Longrightarrow> \<exists>q' k'. (q', k') \<in> set fs \<and> child_of a q'"
proof (induction r arbitrary: k rule: rev_induct)
  case Nil
  then show ?case by simp
next
  case (snoc x r)
  show ?case
  proof (cases "r = []")
    case True
    with snoc.prems show ?thesis
      by (auto simp: child_of_def intro!: exI [of _ "a @ [x]"])
  next
    case False
    then have "butlast (a @ r @ [x]) = a @ r" and "a @ r \<noteq> []"
      by (simp_all add: butlast_append)
    with snoc.prems(1) assms have "(a @ r, Dir) \<in> set fs"
      by (fastforce simp: wf_files_def)
    from snoc.IH [OF this False] show ?thesis .
  qed
qed

lemma is_prefix_append: "is_prefix a q \<Longrightarrow> \<exists>r. q = a @ r"
  by (metis is_prefix_def append_take_drop_id)

lemma prune_frames_dir_files:
  assumes "wf_files (files w)" and "q \<noteq> abspath w d"
  shows "(q, k) \<in> set (files (prune_frames_dir d w)) \<longleftrightarrow> (q, k) \<in> set (files w)"
proof (cases "lower (name d) = ''frames'' \<and> iterdir w d = Inr [] \<and> is_dir w d")
  case True
  then have empty: "\<And>q' k'. (q', k') \<in> set (files w) \<Longrightarrow> \<not> child_of (abspath w d) q'"
    by (auto simp: iterdir_def filter_empty_conv)
  have "\<not> is_prefix (abspath w d) q" if "(q, k) \<in> set (files w)"
  proof
    assume "is_prefix (abspath w d) q"
    then obtain r where r: "q = abspath w d @ r"
      using is_prefix_append by blast
    with assms(2) have "r \<noteq> []" by auto
    from wf_files_child [OF assms(1) that [unfolded r] this] empty show False by blast
  qed
  with True show ?thesis
    by (auto simp: prune_frames_dir_def rmtree_def files_logger)
next
  case False
  then show ?thesis
    by (auto simp: prune_frames_dir_def rmtree_def iterdir_def files_logger
             split: sum.splits if_splits)
qed

lemma prune_frames_dir_cwd: "cwd (prune_frames_dir d w) = cwd w"
  by (auto simp: prune_frames_dir_def rmtree_def cwd_logger split: sum.splits)

lemma abspath_glob_png:
  "abspath w ` set (glob_png w d) =
   {q. \<exists>k. (q, k) \<in> set (files w) \<and> child_of (abspath w d) q \<and> fnmatch_png (last q)}"
proof -
  have "abspath w (joinpath d (last q)) = q" if "child_of (abspath w d) q" for q
    using that append_butlast_last_id [of q] by (auto simp: abspath_joinpath child_of_def)
  then show ?thesis
    by (force simp: glob_png_def image_iff)
qed

text \<open>The files of the world after the deletion loop over the globbed paths.\<close>

lemma remove_globbed_files:
  assumes "listed (files w)" and "files w2 = files w" and "cwd w2 = cwd w"
  shows "files (remove_files (glob_png w d) w2) =
         filter (\<lambda>(q, k). \<not> (k = File \<and> child_of (abspath w d) q \<and> fnmatch_png (last q))) (files w)"
proof -
  have a: "abspath w2 = abspath w"
    by (rule ext) (simp add: abspath_def assms(3))
  have "files (remove_files (glob_png w d) w2) =
        filter (\<lambda>(q, k). \<not> (k = File \<and> q \<in> abspath w ` set (glob_png w d))) (files w)"
    using assms(1) by (simp add: remove_files_files assms(2) a)
  also have "\<dots> = filter (\<lambda>(q, k). \<not> (k = File \<and> child_of (abspath w d) q \<and> fnmatch_png (last q))) (files w)"
    by (rule filter_cong) (auto simp: abspath_glob_png)
  finally show ?thesis .
qed

section \<open>Frame Cleaner: scope of the deletion\<close>

text \<open>
  C7: for every resolved cleanup directory \<open>d\<close> of a well-formed file system, cleanup
  succeeds and deletes exactly the regular files directly inside \<open>d\<close> whose name matches
  \<^verbatim>\<open>*.png\<close>: every other entry apart from \<open>d\<close> itself (non-png files, nested directories
  and their contents, everything outside \<open>d\<close>) is present afterwards exactly if it was
  present before. The entry of \<open>d\<close> itself is exempt because an emptied \<^verbatim>\<open>frames\<close>
  directory is pruned.
\<close>

theorem delete_frames_scope:
  assumes "wf_files (files w)"
    and "exists w target_path"
    and "d = fst (frames_dir_to_clean target_path w)"
    and "is_dir w d"
  shows "fst (delete_frames target_path w) = Inr () \<and>
         (\<forall>q k. q \<noteq> abspath w d \<longrightarrow>
            ((q, k) \<in> set (files (snd (delete_frames target_path w))) \<longleftrightarrow>
             (q, k) \<in> set (files w) \<and>
             \<not> (k = File \<and> child_of (abspath w d) q \<and> fnmatch_png (last q))))"
proof -
  obtain w1 where r: "frames_dir_to_clean target_path w = (d, w1)"
    using assms(3) by (cases "frames_dir_to_clean target_path w") simp
  then have f1: "files w1 = files w" and c1: "cwd w1 = cwd w"
    using frames_dir_files [of target_path w] frames_dir_cwd [of target_path w] by simp_all
  have a1: "abspath w1 = abspath w"
    by (rule ext) (simp add: abspath_def c1)
  have d1: "is_dir w1 d"
    using assms(4) by (simp add: is_dir_def f1 a1)
  have g1: "glob_png w1 d = glob_png w d"
    by (simp add: glob_png_def f1 a1)
  let ?P = "\<lambda>(q, k). \<not> (k = File \<and> child_of (abspath w d) q \<and> fnmatch_png (last q))"
  show ?thesis
  proof (cases "glob_png w d = []")
    case True
    then have "\<And>q k. (q, k) \<in> set (files w) \<Longrightarrow> ?P (q, k)"
      by (auto simp: glob_png_def filter_empty_conv)
    with True show ?thesis
      using assms(2) by (auto simp: delete_frames_def r d1 g1 files_logger f1)
  next
    case False
    let ?w2 = "logger INFO (Deleting (length (glob_png w d)) d) w1"
    let ?w3 = "remove_files (glob_png w d) ?w2"
    have res: "delete_frames target_path w = (Inr (), prune_frames_dir d ?w3)"
      using False assms(2) by (simp add: delete_frames_def r d1 g1 Let_def)
    have f3: "files ?w3 = filter ?P (files w)"
      using wf_files_listed [OF assms(1)]
      by (rule remove_globbed_files) (simp_all add: files_logger cwd_logger f1 c1)
    have c3: "abspath ?w3 = abspath w"
      by (rule ext) (simp add: abspath_def remove_files_cwd cwd_logger c1)
    have wf3: "wf_files (files ?w3)"
      unfolding f3 using assms(1) by (rule wf_files_filter) auto
    show ?thesis
      unfolding res using prune_frames_dir_files [OF wf3, of _ d]
      by (simp add: c3 f3)
  qed
qed

lemma cleanup_example:
  "delete_frames (Path ''/v'') cleanup_world =
     (Inr (), cleanup_world\<lparr>files := [([''v''], Dir), ([''v'', ''frames''], Dir), ([''v'', ''frames'', ''c.txt''], File)],
        logged := [(INFO, Deleting 2 (PurePath ''/'' [''v'', ''frames'']))]\<rparr>)"
  by (simp add: cleanup_world_def delete_frames_def frames_dir_to_clean_def glob_png_def
      os_remove_def prune_frames_dir_def iterdir_def rmtree_def path_simps fs_simps)

theorem delete_frames_scope_witness:
  "wf_files (files cleanup_world) \<and> exists cleanup_world (Path ''/v'') \<and>
   PurePath ''/'' [''v'', ''frames''] = fst (frames_dir_to_clean (Path ''/v'') cleanup_world) \<and>
   is_dir cleanup_world (PurePath ''/'' [''v'', ''frames'']) \<and>
   fst (delete_frames (Path ''/v'') cleanup_world) = Inr () \<and>
   ([''v'', ''frames'', ''a.png''], File) \<notin> set (files (snd (delete_frames (Path ''/v'') cleanup_world))) \<and>
   ([''v'', ''frames'', ''b.png''], File) \<notin> set (files (snd (delete_frames (Path ''/v'') cleanup_world))) \<and>
   ([''v'', ''frames'', ''c.txt''], File) \<in> set (files (snd (delete_frames (Path ''/v'') cleanup_world)))"
proof -
  have h1: "wf_files (files cleanup_world)"
    by (simp add: cleanup_world_def wf_files_def)
  have h2: "exists cleanup_world (Path ''/v'')"
    by (simp add: cleanup_world_def path_simps fs_simps)
  have h3: "PurePath ''/'' [''v'', ''frames''] = fst (frames_dir_to_clean (Path ''/v'') cleanup_world)"
    by (simp add: cleanup_world_def frames_dir_to_clean_def path_simps fs_simps)
  have h4: "is_dir cleanup_world (PurePath ''/'' [''v'', ''frames''])"
    by (simp add: cleanup_world_def fs_simps)
  have a: "abspath cleanup_world (PurePath ''/'' [''v'', ''frames'']) = [''v'', ''frames'']"
    by (simp add: abspath_def)
  note scope = delete_frames_scope [OF h1 h2 h3 h4, unfolded a]
  have ok: "fst (delete_frames (Path ''/v'') cleanup_world) = Inr ()"
    using scope by blast
  have pa: "([''v'', ''frames'', ''a.png''], File) \<notin> set (files (snd (delete_frames (Path ''/v'') cleanup_world)))"
    using scope by (simp add: child_of_def fnmatch_png_def)
  have pb: "([''v'', ''frames'', ''b.png''], File) \<notin> set (files (snd (delete_frames (Path ''/v'') cleanup_world)))"
    using scope by (simp add: child_of_def fnmatch_png_def)
  have pc: "([''v'', ''frames'', ''c.txt''], File) \<in> set (files (snd (delete_frames (Path ''/v'') cleanup_world)))"
    using scope by (simp add: child_of_def fnmatch_png_def cleanup_world_def)
  from h1 h2 h3 h4 ok pa pb pc show ?thesis by blast
qed

section \<open>Frame Cleaner: early return and repeated runs\<close>

lemma frames_dir_is_dir:
  "is_dir w t \<Longrightarrow> is_dir w (fst (frames_dir_to_clean t w))"
  by (simp add: frames_dir_to_clean_def Let_def)

lemma frames_dir_not_dir:
  "\<not> is_dir w t \<Longrightarrow> fst (frames_dir_to_clean t w) = t"
  by (simp add: frames_dir_to_clean_def)

lemma same_fs_abspath: "cwd w' = cwd w \<Longrightarrow> abspath w' = abspath w"
  by (rule ext) (simp add: abspath_def)

lemma same_fs_is_dir:
  "files w' = files w \<Longrightarrow> cwd w' = cwd w \<Longrightarrow> is_dir w' = is_dir w"
  by (rule ext) (simp add: is_dir_def abspath_def)

lemma same_fs_exists:
  "files w' = files w \<Longrightarrow> cwd w' = cwd w \<Longrightarrow> exists w' = exists w"
  by (rule ext) (simp add: exists_def abspath_def)

lemma same_fs_glob_png:
  "files w' = files w \<Longrightarrow> cwd w' = cwd w \<Longrightarrow> glob_png w' = glob_png w"
  by (rule ext) (simp add: glob_png_def abspath_def)

lemma same_fs_frames_dir:
  "files w' = files w \<Longrightarrow> cwd w' = cwd w \<Longrightarrow>
   fst (frames_dir_to_clean t w') = fst (frames_dir_to_clean t w)"
  using same_fs_is_dir [of w' w] by (simp add: frames_dir_to_clean_def Let_def)

text \<open>The two ways \<open>delete_frames\<close> ends once the directory is resolved.\<close>

lemma delete_frames_empty:
  assumes "exists w t" and "d = fst (frames_dir_to_clean t w)" and "is_dir w d"
    and "glob_png w d = []"
  shows "delete_frames t w = (Inr (), logger INFO (NoPngFound d) (snd (frames_dir_to_clean t w)))"
proof -
  obtain w1 where r: "frames_dir_to_clean t w = (d, w1)"
    using assms(2) by (cases "frames_dir_to_clean t w") simp
  then have f1: "files w1 = files w" and c1: "cwd w1 = cwd w"
    using frames_dir_files [of t w] frames_dir_cwd [of t w] by simp_all
  show ?thesis
    using assms(1,3,4)
    by (simp add: delete_frames_def r same_fs_is_dir [OF f1 c1] same_fs_glob_png [OF f1 c1])
qed

lemma delete_frames_nonempty:
  assumes "listed (files w)" and "exists w t" and "d = fst (frames_dir_to_clean t w)"
    and "is_dir w d" and "glob_png w d \<noteq> []"
  obtains w3 where "delete_frames t w = (Inr (), prune_frames_dir d w3)"
    and "files w3 =
         filter (\<lambda>(q, k). \<not> (k = File \<and> child_of (abspath w d) q \<and> fnmatch_png (last q))) (files w)"
    and "cwd w3 = cwd w"
proof -
  obtain w1 where r: "frames_dir_to_clean t w = (d, w1)"
    using assms(3) by (cases "frames_dir_to_clean t w") simp
  then have f1: "files w1 = files w" and c1: "cwd w1 = cwd w"
    using frames_dir_files [of t w] frames_dir_cwd [of t w] by simp_all
  let ?w2 = "logger INFO (Deleting (length (glob_png w d)) d) w1"
  let ?w3 = "remove_files (glob_png w d) ?w2"
  have "delete_frames t w = (Inr (), prune_frames_dir d ?w3)"
    using assms(2,4,5)
    by (simp add: delete_frames_def r same_fs_is_dir [OF f1 c1] same_fs_glob_png [OF f1 c1] Let_def)
  moreover have "files ?w3 =
      filter (\<lambda>(q, k). \<not> (k = File \<and> child_of (abspath w d) q \<and> fnmatch_png (last q))) (files w)"
    using assms(1) by (rule remove_globbed_files) (simp_all add: files_logger cwd_logger f1 c1)
  moreover have "cwd ?w3 = cwd w"
    by (simp add: remove_files_cwd cwd_logger c1)
  ultimately show thesis by (rule that)
qed

lemma delete_frames_ok_iff:
  "fst (delete_frames t w) = Inr () \<longleftrightarrow> \<not> exists w t \<or> is_dir w t"
proof (cases "exists w t")
  case False
  then show ?thesis by (simp add: delete_frames_def)
next
  case True
  obtain d w1 where r: "frames_dir_to_clean t w = (d, w1)"
    by (cases "frames_dir_to_clean t w")
  then have f1: "files w1 = files w" and c1: "cwd w1 = cwd w"
    using frames_dir_files [of t w] frames_dir_cwd [of t w] by simp_all
  have "is_dir w d \<longleftrightarrow> is_dir w t"
    using r frames_dir_is_dir [of w t] frames_dir_not_dir [of w t] by auto
  with True show ?thesis
    by (simp add: delete_frames_def r same_fs_is_dir [OF f1 c1] Let_def)
qed

lemma prune_frames_dir_sub:
  "\<exists>Q. files (prune_frames_dir d w) = filter Q (files w)"
proof (cases "files (prune_frames_dir d w) = files w")
  case True
  then have "files (prune_frames_dir d w) = filter (\<lambda>_. True) (files w)" by simp
  then show ?thesis by blast
next
  case False
  then have "files (prune_frames_dir d w) = filter (\<lambda>(q, k). \<not> is_prefix (abspath w d) q) (files w)"
    by (auto simp: prune_frames_dir_def rmtree_def files_logger split: sum.splits if_splits)
  then show ?thesis by blast
qed

lemma delete_frames_cwd: "cwd (snd (delete_frames t w)) = cwd w"
proof -
  obtain d w1 where r: "frames_dir_to_clean t w = (d, w1)"
    by (cases "frames_dir_to_clean t w")
  then have c1: "cwd w1 = cwd w"
    using frames_dir_cwd [of t w] by simp
  show ?thesis
    by (simp add: delete_frames_def r c1 cwd_logger prune_frames_dir_cwd remove_files_cwd Let_def)
qed

lemma delete_frames_sub:
  assumes "listed (files w)"
  shows "\<exists>Q. files (snd (delete_frames t w)) = filter Q (files w)"
proof (cases "exists w t \<and> is_dir w (fst (frames_dir_to_clean t w))
              \<and> glob_png w (fst (frames_dir_to_clean t w)) \<noteq> []")
  case True
  let ?d = "fst (frames_dir_to_clean t w)"
  from True have e: "exists w t" and i: "is_dir w ?d" and g: "glob_png w ?d \<noteq> []"
    by simp_all
  obtain w3 where res: "delete_frames t w = (Inr (), prune_frames_dir ?d w3)"
    and f3: "files w3 =
      filter (\<lambda>(q, k). \<not> (k = File \<and> child_of (abspath w ?d) q \<and> fnmatch_png (last q))) (files w)"
    and "cwd w3 = cwd w"
    by (rule delete_frames_nonempty [OF assms e refl i g])
  obtain Q where "files (prune_frames_dir ?d w3) = filter Q (files w3)"
    using prune_frames_dir_sub by blast
  then have "files (snd (delete_frames t w)) =
      filter (\<lambda>x. (case x of (q, k) \<Rightarrow> \<not> (k = File \<and> child_of (abspath w ?d) q \<and> fnmatch_png (last q))) \<and> Q x) (files w)"
    (is "_ = filter ?R _")
    by (simp add: res f3)
  then show ?thesis by (rule exI [of _ ?R])
next
  case False
  have "files (snd (delete_frames t w)) = files w"
  proof (cases "exists w t")
    case False
    then show ?thesis by (simp add: delete_frames_def files_logger)
  next
    case ex: True
    show ?thesis
    proof (cases "is_dir w (fst (frames_dir_to_clean t w))")
      case True
      with False ex show ?thesis
        by (simp add: delete_frames_empty [OF ex refl True] files_logger frames_dir_files)
    next
      case nd: False
      obtain d w1 where r: "frames_dir_to_clean t w = (d, w1)"
        by (cases "frames_dir_to_clean t w")
      then have f1: "files w1 = files w" and c1: "cwd w1 = cwd w"
        using frames_dir_files [of t w] frames_dir_cwd [of t w] by simp_all
      from nd ex show ?thesis
        by (simp add: delete_frames_def r same_fs_is_dir [OF f1 c1] f1)
    qed
  qed
  then have "files (snd (delete_frames t w)) = filter (\<lambda>_. True) (files w)" by simp
  then show ?thesis by blast
qed

lemma lookup_filter:
  assumes "listed fs" and "lookup (filter Q fs) a = Some k"
  shows "lookup fs a = Some k"
proof (cases "a = []")
  case True
  with assms(2) show ?thesis by (simp add: lookup_def)
next
  case False
  with assms(2) have "(a, k) \<in> set (filter Q fs)"
    by (auto simp: lookup_def dest: map_of_SomeD)
  then have "(a, k) \<in> set fs" by simp
  with assms(1) False show ?thesis
    by (simp add: lookup_def listed_def)
qed


lemma listed_lookup: "listed fs \<Longrightarrow> (a, k) \<in> set fs \<Longrightarrow> lookup fs a = Some k"
  by (force simp: listed_def lookup_def)

lemma lookup_entry: "lookup fs a = Some k \<Longrightarrow> a \<noteq> [] \<Longrightarrow> (a, k) \<in> set fs"
  by (auto simp: lookup_def dest: map_of_SomeD)

lemma delete_frames_abspath: "abspath (snd (delete_frames t w)) = abspath w"
  by (rule same_fs_abspath) (rule delete_frames_cwd)

text \<open>Entries are only ever removed: a directory stays a directory or disappears.\<close>

lemma delete_frames_is_dir_after:
  assumes "listed (files w)" and "is_dir (snd (delete_frames t w)) p"
  shows "is_dir w p"
proof -
  obtain Q where "files (snd (delete_frames t w)) = filter Q (files w)"
    using delete_frames_sub [OF assms(1)] by blast
  with assms show ?thesis
    by (auto simp: is_dir_def delete_frames_abspath dest: lookup_filter)
qed

lemma delete_frames_listed:
  assumes "listed (files w)"
  shows "listed (files (snd (delete_frames t w)))"
proof -
  obtain Q where "files (snd (delete_frames t w)) = filter Q (files w)"
    using delete_frames_sub [OF assms] by blast
  with assms show ?thesis by (simp add: listed_filter)
qed

lemma delete_frames_exists_after:
  assumes "listed (files w)" and "is_dir w p" and "exists (snd (delete_frames t w)) p"
  shows "is_dir (snd (delete_frames t w)) p"
proof -
  obtain Q where q: "files (snd (delete_frames t w)) = filter Q (files w)"
    using delete_frames_sub [OF assms(1)] by blast
  from assms(3) obtain k where "lookup (filter Q (files w)) (abspath w p) = Some k"
    by (auto simp: exists_def q delete_frames_abspath)
  moreover from this have "lookup (files w) (abspath w p) = Some k"
    using assms(1) by (rule lookup_filter [rotated])
  ultimately show ?thesis
    using assms(2) by (simp add: is_dir_def q delete_frames_abspath)
qed

text \<open>After a successful run no regular png file is left in the resolved directory.\<close>

lemma delete_frames_no_png_left:
  assumes "listed (files w)" and "exists w t" and "d = fst (frames_dir_to_clean t w)"
    and "is_dir w d" and "(q, File) \<in> set (files (snd (delete_frames t w)))"
  shows "\<not> (child_of (abspath w d) q \<and> fnmatch_png (last q))"
proof (cases "glob_png w d = []")
  case True
  from assms(5) have "(q, File) \<in> set (files w)"
    by (simp add: delete_frames_empty [OF assms(2,3,4) True] files_logger frames_dir_files)
  with True show ?thesis
    by (auto simp: glob_png_def filter_empty_conv)
next
  case False
  from assms(1,2,3,4) False obtain w3 where res: "delete_frames t w = (Inr (), prune_frames_dir d w3)"
    and f3: "files w3 =
      filter (\<lambda>(q, k). \<not> (k = File \<and> child_of (abspath w d) q \<and> fnmatch_png (last q))) (files w)"
    and "cwd w3 = cwd w"
    by (rule delete_frames_nonempty)
  obtain Q where "files (prune_frames_dir d w3) = filter Q (files w3)"
    using prune_frames_dir_sub by blast
  with assms(5) show ?thesis
    by (auto simp: res f3)
qed

text \<open>A run on a directory without regular png files changes no entry.\<close>

lemma delete_frames_clean_noop:
  assumes "listed (files w)" and "exists w t" and "d = fst (frames_dir_to_clean t w)"
    and "is_dir w d"
    and clean: "\<And>q. (q, File) \<in> set (files w) \<Longrightarrow> \<not> (child_of (abspath w d) q \<and> fnmatch_png (last q))"
  shows "files (snd (delete_frames t w)) = files w"
proof (cases "glob_png w d = []")
  case True
  show ?thesis
    by (simp add: delete_frames_empty [OF assms(2,3,4) True] files_logger frames_dir_files)
next
  case False
  from assms(1,2,3,4) False obtain w3 where res: "delete_frames t w = (Inr (), prune_frames_dir d w3)"
    and f3: "files w3 =
      filter (\<lambda>(q, k). \<not> (k = File \<and> child_of (abspath w d) q \<and> fnmatch_png (last q))) (files w)"
    and c3: "cwd w3 = cwd w"
    by (rule delete_frames_nonempty)
  have f3': "files w3 = files w"
    unfolding f3 using clean by (intro filter_True) auto
  from False obtain q k where "(q, k) \<in> set (files w)" "child_of (abspath w d) q"
    by (auto simp: glob_png_def filter_empty_conv)
  moreover have "is_dir w3 d"
    using assms(4) by (simp add: same_fs_is_dir [OF f3' c3])
  ultimately obtain es where "iterdir w3 d = Inr es" "es \<noteq> []"
    by (auto simp: iterdir_def f3' same_fs_abspath [OF c3] filter_empty_conv)
  then have "prune_frames_dir d w3 = w3"
    by (simp add: prune_frames_dir_def)
  then show ?thesis by (simp add: res f3')
qed


lemma frames_dir_fst:
  "fst (frames_dir_to_clean t w) =
     (if is_dir w t \<and> lower (name t) \<noteq> ''frames'' \<and> is_dir w (joinpath t ''frames'')
      then joinpath t ''frames'' else t)"
  by (simp add: frames_dir_to_clean_def Let_def)

lemma delete_frames_exists_before:
  assumes "listed (files w)" and "exists (snd (delete_frames t w)) p"
  shows "exists w p"
proof -
  obtain Q where q: "files (snd (delete_frames t w)) = filter Q (files w)"
    using delete_frames_sub [OF assms(1)] by blast
  from assms(2) obtain k where "lookup (filter Q (files w)) (abspath w p) = Some k"
    by (auto simp: exists_def q delete_frames_abspath)
  with assms(1) have "lookup (files w) (abspath w p) = Some k"
    by (rule lookup_filter)
  then show ?thesis by (simp add: exists_def)
qed

lemma delete_frames_file_before:
  assumes "listed (files w)" and "x \<in> set (files (snd (delete_frames t w)))"
  shows "x \<in> set (files w)"
proof -
  obtain Q where "files (snd (delete_frames t w)) = filter Q (files w)"
    using delete_frames_sub [OF assms(1)] by blast
  with assms(2) show ?thesis by simp
qed

text \<open>
  C10: when the resolved directory (in particular one named \<^verbatim>\<open>frames\<close>) holds no entry
  matching \<^verbatim>\<open>*.png\<close>, \<open>delete_frames\<close> returns early: its result is the early-return
  branch (the log gains only the ``no .png files found'' line), no entry changes and the
  directory, even an empty one, is still there. Conversely the directory can only
  disappear in a run that deleted at least one regular png file from it.
\<close>

theorem delete_frames_no_png_early_return:
  assumes "listed (files w)" and "exists w t" and "d = fst (frames_dir_to_clean t w)"
    and "is_dir w d"
  shows "(glob_png w d = [] \<longrightarrow>
            delete_frames t w = (Inr (), logger INFO (NoPngFound d) (snd (frames_dir_to_clean t w))) \<and>
            files (snd (delete_frames t w)) = files w \<and>
            is_dir (snd (delete_frames t w)) d) \<and>
         (\<not> is_dir (snd (delete_frames t w)) d \<longrightarrow>
            (\<exists>q. (q, File) \<in> set (files w) \<and> child_of (abspath w d) q \<and> fnmatch_png (last q) \<and>
                 (q, File) \<notin> set (files (snd (delete_frames t w)))))"
proof (intro conjI impI)
  assume e: "glob_png w d = []"
  show r: "delete_frames t w = (Inr (), logger INFO (NoPngFound d) (snd (frames_dir_to_clean t w)))"
    using assms(2,3,4) e by (rule delete_frames_empty)
  show f: "files (snd (delete_frames t w)) = files w"
    by (simp add: r files_logger frames_dir_files)
  show "is_dir (snd (delete_frames t w)) d"
    using assms(4) by (simp add: same_fs_is_dir [OF f delete_frames_cwd])
next
  assume gone: "\<not> is_dir (snd (delete_frames t w)) d"
  have "\<exists>q. (q, File) \<in> set (files w) \<and> child_of (abspath w d) q \<and> fnmatch_png (last q)"
  proof (rule ccontr)
    assume "\<not> ?thesis"
    then have "\<And>q. (q, File) \<in> set (files w) \<Longrightarrow> \<not> (child_of (abspath w d) q \<and> fnmatch_png (last q))"
      by blast
    with assms have "files (snd (delete_frames t w)) = files w"
      by (rule delete_frames_clean_noop)
    then have "is_dir (snd (delete_frames t w)) d"
      using assms(4) by (simp add: same_fs_is_dir [OF _ delete_frames_cwd])
    with gone show False by simp
  qed
  then obtain q where q: "(q, File) \<in> set (files w)" "child_of (abspath w d) q" "fnmatch_png (last q)"
    by blast
  then have "(q, File) \<notin> set (files (snd (delete_frames t w)))"
    using delete_frames_no_png_left [OF assms, of q] by blast
  with q show "\<exists>q. (q, File) \<in> set (files w) \<and> child_of (abspath w d) q \<and> fnmatch_png (last q) \<and>
                 (q, File) \<notin> set (files (snd (delete_frames t w)))"
    by blast
qed

text \<open>
  C8 (amended): after a successful first run a second run on the same target raises no
  error. It changes no entry whenever the target is itself named \<^verbatim>\<open>frames\<close>, or the
  first run did not remove the target's \<^verbatim>\<open>frames\<close> subdirectory, or the target directory
  holds no regular png file directly. (Otherwise the second run falls back to the target
  itself and deletes the png files there.)
\<close>

theorem delete_frames_twice:
  assumes "listed (files w)" and "fst (delete_frames t w) = Inr ()"
    and "w' = snd (delete_frames t w)"
  shows "fst (delete_frames t w') = Inr () \<and>
         (lower (name t) = ''frames'' \<or>
          (is_dir w (joinpath t ''frames'') \<longrightarrow> is_dir w' (joinpath t ''frames'')) \<or>
          (\<forall>q. (q, File) \<in> set (files w) \<longrightarrow> \<not> (child_of (abspath w t) q \<and> fnmatch_png (last q)))
          \<longrightarrow> files (snd (delete_frames t w')) = files w')"
proof (cases "exists w' t")
  case False
  then show ?thesis by (simp add: delete_frames_def files_logger)
next
  case True
  let ?tf = "joinpath t ''frames''"
  let ?d = "fst (frames_dir_to_clean t w)"
  let ?d2 = "fst (frames_dir_to_clean t w')"
  have l': "listed (files w')"
    unfolding assms(3) using assms(1) by (rule delete_frames_listed)
  have a': "abspath w' = abspath w"
    unfolding assms(3) by (rule delete_frames_abspath)
  have ex: "exists w t"
    using assms(1) True unfolding assms(3) by (rule delete_frames_exists_before)
  with assms(2) have dir: "is_dir w t"
    by (simp add: delete_frames_ok_iff)
  have dir': "is_dir w' t"
    using assms(1) dir True unfolding assms(3) by (rule delete_frames_exists_after)
  then have ok: "fst (delete_frames t w') = Inr ()"
    by (simp add: delete_frames_ok_iff)
  have d: "is_dir w ?d" using dir by (rule frames_dir_is_dir)
  have d2: "is_dir w' ?d2" using dir' by (rule frames_dir_is_dir)
  have noop: "files (snd (delete_frames t w')) = files w'"
    if cond: "lower (name t) = ''frames'' \<or> (is_dir w ?tf \<longrightarrow> is_dir w' ?tf) \<or>
       (\<forall>q. (q, File) \<in> set (files w) \<longrightarrow> \<not> (child_of (abspath w t) q \<and> fnmatch_png (last q)))"
  proof (rule delete_frames_clean_noop [OF l' True refl d2])
    fix q assume q: "(q, File) \<in> set (files w')"
    show "\<not> (child_of (abspath w' ?d2) q \<and> fnmatch_png (last q))"
    proof (cases "?d2 = ?d")
      case True
      with delete_frames_no_png_left [OF assms(1) ex refl d q [unfolded assms(3)]]
      show ?thesis by (simp add: a')
    next
      case False
      have before: "is_dir w' ?tf \<Longrightarrow> is_dir w ?tf"
        unfolding assms(3) using assms(1) by (rule delete_frames_is_dir_after)
      from False dir dir' before have neq: "lower (name t) \<noteq> ''frames''"
        and was: "is_dir w ?tf" and now: "\<not> is_dir w' ?tf"
        by (auto simp: frames_dir_fst split: if_splits)
      from dir' neq now have t2: "?d2 = t"
        by (simp add: frames_dir_fst)
      from cond neq was now
      have "\<forall>q. (q, File) \<in> set (files w) \<longrightarrow> \<not> (child_of (abspath w t) q \<and> fnmatch_png (last q))"
        by blast
      moreover have "(q, File) \<in> set (files w)"
        using assms(1) q unfolding assms(3) by (rule delete_frames_file_before)
      ultimately show ?thesis by (simp add: t2 a')
    qed
  qed
  with ok show ?thesis by blast
qed


lemmas delete_simps = delete_frames_def frames_dir_to_clean_def glob_png_def
  os_remove_def prune_frames_dir_def iterdir_def rmtree_def Let_def

text \<open>
  The first run on \<^verbatim>\<open>/v\<close> empties and prunes \<^verbatim>\<open>/v/frames\<close>; the second run then
  cleans \<^verbatim>\<open>/v\<close> itself and deletes \<^verbatim>\<open>/v/a.png\<close>.
\<close>

lemma thumbnail_first_run:
  "delete_frames (Path ''/v'') thumbnail_world =
     (Inr (), thumbnail_world
        \<lparr>files := [([''v''], Dir), ([''v'', ''a.png''], File)],
         logged := [(INFO, Deleting 1 (PurePath ''/'' [''v'', ''frames''])),
                    (INFO, RemovedEmptyDir (PurePath ''/'' [''v'', ''frames'']))]\<rparr>)"
  by (simp add: thumbnail_world_def delete_simps path_simps fs_simps)

lemma thumbnail_second_run:
  "delete_frames (Path ''/v'') (snd (delete_frames (Path ''/v'') thumbnail_world)) =
     (Inr (), thumbnail_world
        \<lparr>files := [([''v''], Dir)],
         logged := [(INFO, Deleting 1 (PurePath ''/'' [''v'', ''frames''])),
                    (INFO, RemovedEmptyDir (PurePath ''/'' [''v'', ''frames''])),
                    (WARNING, NoFramesSubdir (PurePath ''/'' [''v''])),
                    (INFO, Deleting 1 (PurePath ''/'' [''v'']))]\<rparr>)"
  unfolding thumbnail_first_run
  by (simp add: thumbnail_world_def delete_simps path_simps fs_simps)

theorem delete_frames_twice_counterexample:
  "fst (delete_frames (Path ''/v'') thumbnail_world) = Inr () \<and>
   ([''v'', ''a.png''], File) \<in> set (files (snd (delete_frames (Path ''/v'') thumbnail_world))) \<and>
   ([''v'', ''a.png''], File) \<notin> set (files (snd (delete_frames (Path ''/v'')
        (snd (delete_frames (Path ''/v'') thumbnail_world)))))"
  unfolding thumbnail_second_run unfolding thumbnail_first_run
  by (simp add: thumbnail_world_def)

lemma cleanup_world_listed: "listed (files cleanup_world)"
  by (simp add: cleanup_world_def listed_def)

theorem delete_frames_twice_witness:
  "listed (files cleanup_world) \<and>
   fst (delete_frames (Path ''/v'') cleanup_world) = Inr () \<and>
   is_dir (snd (delete_frames (Path ''/v'') cleanup_world)) (joinpath (Path ''/v'') ''frames'') \<and>
   fst (delete_frames (Path ''/v'') (snd (delete_frames (Path ''/v'') cleanup_world))) = Inr () \<and>
   files (snd (delete_frames (Path ''/v'') (snd (delete_frames (Path ''/v'') cleanup_world)))) =
   files (snd (delete_frames (Path ''/v'') cleanup_world))"
proof -
  have h1: "listed (files cleanup_world)"
    by (simp add: cleanup_world_def listed_def)
  have h2: "fst (delete_frames (Path ''/v'') cleanup_world) = Inr ()"
    by (simp add: cleanup_example)
  have h3: "is_dir (snd (delete_frames (Path ''/v'') cleanup_world)) (joinpath (Path ''/v'') ''frames'')"
    unfolding cleanup_example by (simp add: cleanup_world_def path_simps fs_simps)
  from delete_frames_twice [OF h1 h2 refl] h1 h2 h3 show ?thesis by blast
qed

theorem delete_frames_no_png_early_return_witness:
  "listed (files empty_frames_world) \<and> exists empty_frames_world (Path ''/v/frames'') \<and>
   Path ''/v/frames'' = fst (frames_dir_to_clean (Path ''/v/frames'') empty_frames_world) \<and>
   is_dir empty_frames_world (Path ''/v/frames'') \<and>
   glob_png empty_frames_world (Path ''/v/frames'') = [] \<and>
   delete_frames (Path ''/v/frames'') empty_frames_world =
     (Inr (), logger INFO (NoPngFound (Path ''/v/frames''))
                (snd (frames_dir_to_clean (Path ''/v/frames'') empty_frames_world))) \<and>
   files (snd (delete_frames (Path ''/v/frames'') empty_frames_world)) = files empty_frames_world \<and>
   is_dir (snd (delete_frames (Path ''/v/frames'') empty_frames_world)) (Path ''/v/frames'') \<and>
   listed (files thumbnail_world) \<and> exists thumbnail_world (Path ''/v'') \<and>
   Path ''/v/frames'' = fst (frames_dir_to_clean (Path ''/v'') thumbnail_world) \<and>
   is_dir thumbnail_world (Path ''/v/frames'') \<and>
   \<not> is_dir (snd (delete_frames (Path ''/v'') thumbnail_world)) (Path ''/v/frames'') \<and>
   (\<exists>q. (q, File) \<in> set (files thumbnail_world) \<and>
        child_of (abspath thumbnail_world (Path ''/v/frames'')) q \<and> fnmatch_png (last q) \<and>
        (q, File) \<notin> set (files (snd (delete_frames (Path ''/v'') thumbnail_world))))"
proof -
  have e1: "listed (files empty_frames_world)"
    by (simp add: empty_frames_world_def listed_def)
  have e2: "exists empty_frames_world (Path ''/v/frames'')"
    by (simp add: empty_frames_world_def path_simps fs_simps)
  have e3: "Path ''/v/frames'' = fst (frames_dir_to_clean (Path ''/v/frames'') empty_frames_world)"
    by (simp add: empty_frames_world_def frames_dir_to_clean_def path_simps fs_simps)
  have e4: "is_dir empty_frames_world (Path ''/v/frames'')"
    by (simp add: empty_frames_world_def path_simps fs_simps)
  have e5: "glob_png empty_frames_world (Path ''/v/frames'') = []"
    by (simp add: empty_frames_world_def glob_png_def path_simps fs_simps)
  have t1: "listed (files thumbnail_world)"
    by (simp add: thumbnail_world_def listed_def)
  have t2: "exists thumbnail_world (Path ''/v'')"
    by (simp add: thumbnail_world_def path_simps fs_simps)
  have t3: "Path ''/v/frames'' = fst (frames_dir_to_clean (Path ''/v'') thumbnail_world)"
    by (simp add: thumbnail_world_def frames_dir_to_clean_def path_simps fs_simps)
  have t4: "is_dir thumbnail_world (Path ''/v/frames'')"
    by (simp add: thumbnail_world_def path_simps fs_simps)
  have t5: "\<not> is_dir (snd (delete_frames (Path ''/v'') thumbnail_world)) (Path ''/v/frames'')"
    unfolding thumbnail_first_run by (simp add: thumbnail_world_def path_simps fs_simps)
  from delete_frames_no_png_early_return [OF e1 e2 e3 e4]
       delete_frames_no_png_early_return [OF t1 t2 t3 t4]
       e1 e2 e3 e4 e5 t1 t2 t3 t4 t5
  show ?thesis by blast
qed

section \<open>Metadata Prober: frame rate and error types\<close>

lemma split_slash_no_slash: "CHR ''/'' \<notin> set b \<Longrightarrow> split_slash b = [b]"
  by (induction b) auto

lemma split_slash_append:
  "CHR ''/'' \<notin> set a \<Longrightarrow> split_slash (a @ CHR ''/'' # rest) = a # split_slash rest"
  by (induction a) auto

lemma split_slash_ratio:
  "CHR ''/'' \<notin> set a \<Longrightarrow> CHR ''/'' \<notin> set b \<Longrightarrow> split_slash (a @ CHR ''/'' # b) = [a, b]"
  by (simp add: split_slash_append split_slash_no_slash)

lemma rate_of_ratio_parsed:
  assumes "CHR ''/'' \<notin> set a" and "CHR ''/'' \<notin> set b"
    and "py_int parse_int a = Some num" and "py_int parse_int b = Some den"
  shows "rate_of_ratio parse_int (JStr (a @ ''/'' @ b)) =
         (if den = 0 then Inr 0
          else if float_overflow (real_of_int num / real_of_int den) then Inl OverflowError
          else Inr (real_of_int num / real_of_int den))"
  using assms by (simp add: rate_of_ratio_def unpack_rate_def split_slash_ratio)

lemma frame_rate_avg:
  assumes "dict_get video_stream ''avg_frame_rate'' = JStr (a @ ''/'' @ b)"
  shows "frame_rate parse_float parse_int video_stream =
         rate_of_ratio parse_int (JStr (a @ ''/'' @ b))"
  using assms by (simp add: frame_rate_def truthy_def contains_slash_def)

lemma frame_rate_r:
  assumes "\<not> truthy (dict_get video_stream ''avg_frame_rate'')"
    and "dict_get video_stream ''r_frame_rate'' = JStr (a @ ''/'' @ b)"
  shows "frame_rate parse_float parse_int video_stream =
         rate_of_ratio parse_int (JStr (a @ ''/'' @ b))"
  using assms by (simp add: frame_rate_def truthy_def contains_slash_def)

lemma frame_rate_unusable:
  assumes "\<not> truthy (dict_get video_stream ''avg_frame_rate'')"
    and "\<not> truthy (dict_get video_stream ''r_frame_rate'') \<or>
         (\<exists>s. dict_get video_stream ''r_frame_rate'' = JStr s \<and> CHR ''/'' \<notin> set s)"
  shows "frame_rate parse_float parse_int video_stream = Inr 0"
  using assms by (auto simp: frame_rate_def contains_slash_def Let_def)

lemma frame_rate_avg_number:
  assumes "dict_get video_stream ''avg_frame_rate'' = JStr s"
    and "s \<noteq> []" and "CHR ''/'' \<notin> set s"
  shows "frame_rate parse_float parse_int video_stream =
         (case parse_float s of
            None \<Rightarrow> Inl (ValueError ''could not convert string to float'')
          | Some r \<Rightarrow> Inr r)"
  using assms by (simp add: frame_rate_def truthy_def contains_slash_def py_float_def)

lemma frame_rate_avg_only:
  assumes "truthy (dict_get video_stream ''avg_frame_rate'')"
  shows "frame_rate parse_float parse_int video_stream =
         frame_rate parse_float parse_int
           [(''avg_frame_rate'', dict_get video_stream ''avg_frame_rate'')]"
  using assms by (simp add: frame_rate_def dict_get_def)

text \<open>The frame rate of the returned metadata is the one computed from the video stream.\<close>

lemma parse_probe_fps:
  assumes "parse_probe parse_float parse_int pr = Inr m"
  shows "\<exists>video_stream. find_video (streams pr) = Inr (Some video_stream) \<and>
           frame_rate parse_float parse_int video_stream = Inr (fps m)"
  using assms
  by (auto simp: parse_probe_def Let_def split: sum.splits option.splits)

lemma get_video_metadata_fps:
  assumes "get_video_metadata e p w = (Inr m, w1)"
  shows "\<exists>pr video_stream. ffprobe e p = Probed pr \<and>
           find_video (streams pr) = Inr (Some video_stream) \<and>
           frame_rate (float_of_str e) (int_of_str e) video_stream = Inr (fps m)"
proof -
  from assms obtain pr where p: "ffprobe e p = Probed pr"
    and "parse_probe (float_of_str e) (int_of_str e) pr = Inr m"
    by (auto simp: get_video_metadata_def Let_def
        split: if_splits probe_outcome.splits sum.splits)
  with parse_probe_fps [of "float_of_str e" "int_of_str e" pr m] show ?thesis
    by blast
qed

text \<open>
  C1 (amended). Let \<open>a\<close> and \<open>b\<close> be strings without a slash that \<^verbatim>\<open>int\<close> reads as \<open>num\<close> and
  \<open>den\<close>, and call the \<^emph>\<open>ratio rule\<close> the result \<open>0\<close> for \<open>den = 0\<close>, an \<open>OverflowError\<close>
  when \<open>num / den\<close> is beyond the float range, and \<open>num / den\<close> otherwise.
  \<^item> When \<^verbatim>\<open>avg_frame_rate\<close> is the string \<^verbatim>\<open>a/b\<close>, the frame rate follows the ratio rule.
  \<^item> When \<^verbatim>\<open>avg_frame_rate\<close> is falsy (absent, \<^verbatim>\<open>null\<close>, the empty string) and
    \<^verbatim>\<open>r_frame_rate\<close> is the string \<^verbatim>\<open>a/b\<close>, the frame rate follows the ratio rule.
  \<^item> When \<^verbatim>\<open>avg_frame_rate\<close> is falsy and \<^verbatim>\<open>r_frame_rate\<close> is falsy or a string without
    a slash (a plain number included), the frame rate is \<open>0\<close>.
  \<^item> When \<^verbatim>\<open>avg_frame_rate\<close> is truthy, \<^verbatim>\<open>r_frame_rate\<close> has no influence: the frame rate
    is the one of the stream reduced to its \<^verbatim>\<open>avg_frame_rate\<close> entry.
  \<^item> When \<^verbatim>\<open>avg_frame_rate\<close> is a non-empty string without a slash, the frame rate is
    \<^verbatim>\<open>float\<close> of that string.
  \<^item> The \<open>fps\<close> of the metadata that the prober returns is this frame rate of the first
    video stream of the probe response.
\<close>

theorem frame_rate_fallback_chain:
  assumes "CHR ''/'' \<notin> set a" and "CHR ''/'' \<notin> set b"
    and "py_int parse_int a = Some num" and "py_int parse_int b = Some den"
  shows "(dict_get video_stream ''avg_frame_rate'' = JStr (a @ ''/'' @ b) \<longrightarrow>
            frame_rate parse_float parse_int video_stream =
            (if den = 0 then Inr 0
             else if float_overflow (real_of_int num / real_of_int den) then Inl OverflowError
             else Inr (real_of_int num / real_of_int den))) \<and>
         (\<not> truthy (dict_get video_stream ''avg_frame_rate'') \<and>
          dict_get video_stream ''r_frame_rate'' = JStr (a @ ''/'' @ b) \<longrightarrow>
            frame_rate parse_float parse_int video_stream =
            (if den = 0 then Inr 0
             else if float_overflow (real_of_int num / real_of_int den) then Inl OverflowError
             else Inr (real_of_int num / real_of_int den))) \<and>
         (\<not> truthy (dict_get video_stream ''avg_frame_rate'') \<and>
          (\<not> truthy (dict_get video_stream ''r_frame_rate'') \<or>
           (\<exists>s. dict_get video_stream ''r_frame_rate'' = JStr s \<and> CHR ''/'' \<notin> set s)) \<longrightarrow>
            frame_rate parse_float parse_int video_stream = Inr 0) \<and>
         (truthy (dict_get video_stream ''avg_frame_rate'') \<longrightarrow>
            frame_rate parse_float parse_int video_stream =
            frame_rate parse_float parse_int
              [(''avg_frame_rate'', dict_get video_stream ''avg_frame_rate'')]) \<and>
         (dict_get video_stream ''avg_frame_rate'' = JStr s \<and> s \<noteq> [] \<and> CHR ''/'' \<notin> set s \<longrightarrow>
            frame_rate parse_float parse_int video_stream =
            (case parse_float s of
               None \<Rightarrow> Inl (ValueError ''could not convert string to float'')
             | Some r \<Rightarrow> Inr r)) \<and>
         (get_video_metadata e p w = (Inr m, w1) \<longrightarrow>
            (\<exists>pr vs. ffprobe e p = Probed pr \<and> find_video (streams pr) = Inr (Some vs) \<and>
               frame_rate (float_of_str e) (int_of_str e) vs = Inr (fps m)))"
proof (intro conjI impI)
  note r = rate_of_ratio_parsed [OF assms]
  show "frame_rate parse_float parse_int video_stream =
        (if den = 0 then Inr 0
         else if float_overflow (real_of_int num / real_of_int den) then Inl OverflowError
         else Inr (real_of_int num / real_of_int den))"
    if "dict_get video_stream ''avg_frame_rate'' = JStr (a @ ''/'' @ b)"
    unfolding frame_rate_avg [OF that] by (rule r)
  show "frame_rate parse_float parse_int video_stream =
        (if den = 0 then Inr 0
         else if float_overflow (real_of_int num / real_of_int den) then Inl OverflowError
         else Inr (real_of_int num / real_of_int den))"
    if "\<not> truthy (dict_get video_stream ''avg_frame_rate'') \<and>
        dict_get video_stream ''r_frame_rate'' = JStr (a @ ''/'' @ b)"
    unfolding frame_rate_r [OF conjunct1 [OF that] conjunct2 [OF that]] by (rule r)
  show "frame_rate parse_float parse_int video_stream = Inr 0"
    if "\<not> truthy (dict_get video_stream ''avg_frame_rate'') \<and>
        (\<not> truthy (dict_get video_stream ''r_frame_rate'') \<or>
         (\<exists>s. dict_get video_stream ''r_frame_rate'' = JStr s \<and> CHR ''/'' \<notin> set s))"
    by (rule frame_rate_unusable [OF conjunct1 [OF that] conjunct2 [OF that]])
  show "frame_rate parse_float parse_int video_stream =
        frame_rate parse_float parse_int
          [(''avg_frame_rate'', dict_get video_stream ''avg_frame_rate'')]"
    if "truthy (dict_get video_stream ''avg_frame_rate'')"
    by (rule frame_rate_avg_only [OF that])
  show "frame_rate parse_float parse_int video_stream =
        (case parse_float s of
           None \<Rightarrow> Inl (ValueError ''could not convert string to float'')
         | Some r \<Rightarrow> Inr r)"
    if "dict_get video_stream ''avg_frame_rate'' = JStr s \<and> s \<noteq> [] \<and> CHR ''/'' \<notin> set s"
    using that by (simp add: frame_rate_avg_number)
  show "\<exists>pr vs. ffprobe e p = Probed pr \<and> find_video (streams pr) = Inr (Some vs) \<and>
          frame_rate (float_of_str e) (int_of_str e) vs = Inr (fps m)"
    if "get_video_metadata e p w = (Inr m, w1)"
    by (rule get_video_metadata_fps [OF that])
qed

lemmas int_simps = py_int_def is_ascii_def ascii_int_def py_nat_def strip_def is_space_def
  digit_of_def float_overflow_def

lemma py_int_30000: "py_int parse_int ''30000'' = Some 30000"
  by (simp add: int_simps)

lemma py_int_1001: "py_int parse_int ''1001'' = Some 1001"
  by (simp add: int_simps)

lemma py_int_0: "py_int parse_int ''0'' = Some 0"
  by (simp add: int_simps)

lemma py_int_25: "py_int parse_int ''25'' = Some 25"
  by (simp add: int_simps)

lemma py_int_1: "py_int parse_int ''1'' = Some 1"
  by (simp add: int_simps)

lemma py_int_huge:
  "py_int parse_int
     ''1000000000000000000000000000000000000000000000000000000000000000000000000000000000000000000000000000000000000000000000000000000000000000000000000000000000000000000000000000000000000000000000000000000000000000000000000000000000000000000000000000000000000000000000000000000000000000000000000000000000000000000000'' =
   Some (10 ^ 309)"
  by (simp add: int_simps)

lemmas probe_simps = get_video_metadata_def parse_probe_def frame_rate_def dict_get_def
  truthy_def contains_slash_def rate_of_ratio_def unpack_rate_def py_float_def
  sample_env_def sample_probe_def audio_probe_def still_probe_def sample_float_def
  sample_world_def Let_def

lemma v2_metadata:
  "get_video_metadata (sample_env JNull) (Path ''/b/v2.mp4'') sample_world =
     (Inr \<lparr>duration_s = 10, width = JInt 1920, height = JInt 1080, fps = 30000 / 1001\<rparr>,
      sample_world\<lparr>calls := [ProbeCall (Path ''/b/v2.mp4'')]\<rparr>)"
  by (simp add: probe_simps path_simps fs_simps int_simps)

theorem frame_rate_fallback_chain_witness:
  "CHR ''/'' \<notin> set ''30000'' \<and> CHR ''/'' \<notin> set ''1001'' \<and>
   py_int (\<lambda>s. None) ''30000'' = Some 30000 \<and> py_int (\<lambda>s. None) ''1001'' = Some 1001 \<and>
   frame_rate sample_float (\<lambda>s. None)
     [(''avg_frame_rate'', JStr ''30000/1001''), (''r_frame_rate'', JStr ''25/1'')] =
     Inr (30000 / 1001) \<and>
   \<bar>30000 / 1001 - 29.97\<bar> < (0.001 :: real) \<and>
   frame_rate sample_float (\<lambda>s. None) [(''r_frame_rate'', JStr ''30000/1001'')] =
     Inr (30000 / 1001) \<and>
   frame_rate sample_float (\<lambda>s. None)
     [(''avg_frame_rate'', JStr []), (''r_frame_rate'', JStr ''30000/1001'')] =
     Inr (30000 / 1001) \<and>
   frame_rate sample_float (\<lambda>s. None)
     [(''avg_frame_rate'', JNull), (''r_frame_rate'', JStr ''30000/1001'')] =
     Inr (30000 / 1001) \<and>
   frame_rate sample_float (\<lambda>s. None) [] = Inr 0 \<and>
   frame_rate sample_float (\<lambda>s. None) [(''r_frame_rate'', JStr ''10.5'')] = Inr 0 \<and>
   py_int (\<lambda>s. None) ''0'' = Some 0 \<and>
   frame_rate sample_float (\<lambda>s. None)
     [(''avg_frame_rate'', JStr ''30000/0''), (''r_frame_rate'', JStr ''25/1'')] = Inr 0 \<and>
   float_overflow (real_of_int (10 ^ 309) / real_of_int 1) \<and>
   frame_rate sample_float (\<lambda>s. None)
     [(''avg_frame_rate'',
       JStr ''1000000000000000000000000000000000000000000000000000000000000000000000000000000000000000000000000000000000000000000000000000000000000000000000000000000000000000000000000000000000000000000000000000000000000000000000000000000000000000000000000000000000000000000000000000000000000000000000000000000000000000000000/1'')] =
     Inl OverflowError \<and>
   frame_rate sample_float (\<lambda>s. None)
     [(''avg_frame_rate'', JStr ''10.5''), (''r_frame_rate'', JStr ''25/1'')] =
     frame_rate sample_float (\<lambda>s. None) [(''avg_frame_rate'', JStr ''10.5'')] \<and>
   frame_rate sample_float (\<lambda>s. None)
     [(''avg_frame_rate'', JStr ''10.5''), (''r_frame_rate'', JStr ''25/1'')] = Inr (21 / 2) \<and>
   get_video_metadata (sample_env JNull) (Path ''/b/v2.mp4'') sample_world =
     (Inr \<lparr>duration_s = 10, width = JInt 1920, height = JInt 1080, fps = 30000 / 1001\<rparr>,
      sample_world\<lparr>calls := [ProbeCall (Path ''/b/v2.mp4'')]\<rparr>) \<and>
   (\<exists>pr vs. ffprobe (sample_env JNull) (Path ''/b/v2.mp4'') = Probed pr \<and>
      find_video (streams pr) = Inr (Some vs) \<and>
      frame_rate (float_of_str (sample_env JNull)) (int_of_str (sample_env JNull)) vs =
        Inr (30000 / 1001))"
proof -
  let ?pf = sample_float
  let ?pi = "\<lambda>s :: string. None :: int option"
  let ?m = "\<lparr>duration_s = 10, width = JInt 1920, height = JInt 1080, fps = 30000 / 1001\<rparr>"
  let ?w1 = "sample_world\<lparr>calls := [ProbeCall (Path ''/b/v2.mp4'')]\<rparr>"
  have s1: "CHR ''/'' \<notin> set ''30000''" and s2: "CHR ''/'' \<notin> set ''1001''"
    and s3: "CHR ''/'' \<notin> set ''0''" and s4: "CHR ''/'' \<notin> set ''1''"
    and s5: "CHR ''/'' \<notin> set
      ''1000000000000000000000000000000000000000000000000000000000000000000000000000000000000000000000000000000000000000000000000000000000000000000000000000000000000000000000000000000000000000000000000000000000000000000000000000000000000000000000000000000000000000000000000000000000000000000000000000000000000000000000''"
    by simp_all
  note i1 = py_int_30000 [of ?pi] and i2 = py_int_1001 [of ?pi] and i3 = py_int_0 [of ?pi]
  note c = frame_rate_fallback_chain [OF s1 s2 i1 i2]
  note z = frame_rate_fallback_chain [OF s1 s3 i1 i3]
  note c1 = c [where video_stream =
      "[(''avg_frame_rate'', JStr ''30000/1001''), (''r_frame_rate'', JStr ''25/1'')]"
      and parse_float = ?pf]
  note c2 = c [where video_stream = "[(''r_frame_rate'', JStr ''30000/1001'')]"
      and parse_float = ?pf]
  note c3 = c [where video_stream =
      "[(''avg_frame_rate'', JStr []), (''r_frame_rate'', JStr ''30000/1001'')]"
      and parse_float = ?pf]
  note c4 = c [where video_stream =
      "[(''avg_frame_rate'', JNull), (''r_frame_rate'', JStr ''30000/1001'')]"
      and parse_float = ?pf]
  note c5 = c [where video_stream = "[]" and parse_float = ?pf]
  note c6 = c [where video_stream = "[(''r_frame_rate'', JStr ''10.5'')]" and parse_float = ?pf]
  note c7 = z [where video_stream =
      "[(''avg_frame_rate'', JStr ''30000/0''), (''r_frame_rate'', JStr ''25/1'')]"
      and parse_float = ?pf]
  note c8 = c [where video_stream =
      "[(''avg_frame_rate'', JStr ''10.5''), (''r_frame_rate'', JStr ''25/1'')]"
      and parse_float = ?pf and s = "''10.5''"]
  note c9 = c [where e = "sample_env JNull" and p = "Path ''/b/v2.mp4''" and w = sample_world
      and m = ?m and ?w1.0 = ?w1]
  have r1: "frame_rate ?pf ?pi
     [(''avg_frame_rate'', JStr ''30000/1001''), (''r_frame_rate'', JStr ''25/1'')] =
     Inr (30000 / 1001)"
    using conjunct1 [OF c1] by (simp add: dict_get_def float_overflow_def)
  have r2: "frame_rate ?pf ?pi [(''r_frame_rate'', JStr ''30000/1001'')] = Inr (30000 / 1001)"
    using conjunct1 [OF conjunct2 [OF c2]]
    by (simp add: dict_get_def truthy_def float_overflow_def)
  have r3: "frame_rate ?pf ?pi
     [(''avg_frame_rate'', JStr []), (''r_frame_rate'', JStr ''30000/1001'')] =
     Inr (30000 / 1001)"
    using conjunct1 [OF conjunct2 [OF c3]]
    by (simp add: dict_get_def truthy_def float_overflow_def)
  have r4: "frame_rate ?pf ?pi
     [(''avg_frame_rate'', JNull), (''r_frame_rate'', JStr ''30000/1001'')] =
     Inr (30000 / 1001)"
    using conjunct1 [OF conjunct2 [OF c4]]
    by (simp add: dict_get_def truthy_def float_overflow_def)
  have r5: "frame_rate ?pf ?pi [] = Inr 0"
    using conjunct1 [OF conjunct2 [OF conjunct2 [OF c5]]]
    by (simp add: dict_get_def truthy_def)
  have r6: "frame_rate ?pf ?pi [(''r_frame_rate'', JStr ''10.5'')] = Inr 0"
    using conjunct1 [OF conjunct2 [OF conjunct2 [OF c6]]]
    by (simp add: dict_get_def truthy_def)
  have r7: "frame_rate ?pf ?pi
     [(''avg_frame_rate'', JStr ''30000/0''), (''r_frame_rate'', JStr ''25/1'')] = Inr 0"
    using conjunct1 [OF c7] by (simp add: dict_get_def)
  have o: "float_overflow (real_of_int (10 ^ 309) / real_of_int 1)"
    by (simp add: float_overflow_def)
  have ro: "frame_rate ?pf ?pi
     [(''avg_frame_rate'',
       JStr ''1000000000000000000000000000000000000000000000000000000000000000000000000000000000000000000000000000000000000000000000000000000000000000000000000000000000000000000000000000000000000000000000000000000000000000000000000000000000000000000000000000000000000000000000000000000000000000000000000000000000000000000000/1'')] =
     Inl OverflowError"
    using conjunct1 [OF frame_rate_fallback_chain [OF s5 s4 py_int_huge [of ?pi] py_int_1 [of ?pi],
      where video_stream = "[(''avg_frame_rate'',
       JStr ''1000000000000000000000000000000000000000000000000000000000000000000000000000000000000000000000000000000000000000000000000000000000000000000000000000000000000000000000000000000000000000000000000000000000000000000000000000000000000000000000000000000000000000000000000000000000000000000000000000000000000000000000/1'')]"
      and parse_float = ?pf]] o
    by (simp add: dict_get_def)
  have r8: "frame_rate ?pf ?pi
     [(''avg_frame_rate'', JStr ''10.5''), (''r_frame_rate'', JStr ''25/1'')] =
     frame_rate ?pf ?pi [(''avg_frame_rate'', JStr ''10.5'')]"
    using conjunct1 [OF conjunct2 [OF conjunct2 [OF conjunct2 [OF c8]]]]
    by (simp add: dict_get_def truthy_def)
  have r9: "frame_rate ?pf ?pi
     [(''avg_frame_rate'', JStr ''10.5''), (''r_frame_rate'', JStr ''25/1'')] = Inr (21 / 2)"
    using conjunct1 [OF conjunct2 [OF conjunct2 [OF conjunct2 [OF conjunct2 [OF c8]]]]]
    by (simp add: dict_get_def sample_float_def)
  note r10 = mp [OF conjunct2 [OF conjunct2 [OF conjunct2 [OF conjunct2 [OF conjunct2 [OF c9]]]]]
      v2_metadata]
  have r11: "\<exists>pr vs. ffprobe (sample_env JNull) (Path ''/b/v2.mp4'') = Probed pr \<and>
      find_video (streams pr) = Inr (Some vs) \<and>
      frame_rate (float_of_str (sample_env JNull)) (int_of_str (sample_env JNull)) vs =
        Inr (30000 / 1001)"
    using r10 by simp
  have ap: "\<bar>30000 / 1001 - 29.97\<bar> < (0.001 :: real)"
    by simp
  from s1 s2 i1 i2 r1 ap r2 r3 r4 r5 r6 i3 r7 o ro r8 r9 v2_metadata r11 show ?thesis
    by (intro conjI)
qed

text \<open>
  With \<^verbatim>\<open>avg_frame_rate = "0/0"\<close> (what the tool reports for an unknown average rate)
  and \<^verbatim>\<open>r_frame_rate = "25/1"\<close> the rate is \<open>0\<close>, not \<open>25\<close>; likewise for the
  spec's own example \<^verbatim>\<open>"0/1"\<close>. With a numerator of \<open>10 ^ 309\<close> and the denominator \<open>1\<close>
  the quotient is beyond the float range and the division raises \<open>OverflowError\<close>.
\<close>

theorem frame_rate_fallback_counterexample:
  "frame_rate (\<lambda>s. None) (\<lambda>s. None)
     [(''avg_frame_rate'', JStr ''0/0''), (''r_frame_rate'', JStr ''25/1'')] = Inr 0 \<and>
   frame_rate (\<lambda>s. None) (\<lambda>s. None)
     [(''avg_frame_rate'', JStr ''0/1''), (''r_frame_rate'', JStr ''25/1'')] = Inr 0 \<and>
   frame_rate (\<lambda>s. None) (\<lambda>s. None) [(''r_frame_rate'', JStr ''25/1'')] = Inr 25 \<and>
   frame_rate (\<lambda>s. None) (\<lambda>s. None)
     [(''avg_frame_rate'', JStr ''1000000000000000000000000000000000000000000000000000000000000000000000000000000000000000000000000000000000000000000000000000000000000000000000000000000000000000000000000000000000000000000000000000000000000000000000000000000000000000000000000000000000000000000000000000000000000000000000000000000000000000000000/1''), (''r_frame_rate'', JStr ''25/1'')] =
     Inl OverflowError"
  by (simp add: frame_rate_def dict_get_def truthy_def contains_slash_def rate_of_ratio_def
      unpack_rate_def int_simps)


text \<open>
  C9: an existing file whose probe response has no video stream. Line 29 raises
  \<open>ValueError\<close> inside the \<^verbatim>\<open>try\<close>, the handler of line 57 catches it, and the prober
  fails with the same \<open>RuntimeError\<close> as for a failed tool invocation.
\<close>

theorem no_video_stream_error:
  "parse_probe sample_float (\<lambda>s. None) audio_probe =
     Inl (ValueError ''No video stream found'') \<and>
   get_video_metadata (sample_env JNull) (Path ''/a/song.mp4'') sample_world =
     (Inl (RuntimeError ''Could not get video metadata''),
      sample_world
        \<lparr>logged := [(ERROR, MetadataError (Path ''/a/song.mp4'') (ValueError ''No video stream found''))],
         calls := [ProbeCall (Path ''/a/song.mp4'')]\<rparr>) \<and>
   fst (get_video_metadata (sample_env JNull) (Path ''/a/v1.mp4'') sample_world) =
     Inl (RuntimeError ''Could not get video metadata'')"
  by (simp add: probe_simps path_simps fs_simps)


section \<open>Rate Planner and Frame Extractor: sampling rate and validation\<close>

lemma get_video_metadata_files:
  "files (snd (get_video_metadata e p w)) = files w"
  and get_video_metadata_cwd: "cwd (snd (get_video_metadata e p w)) = cwd w"
  by (simp_all add: get_video_metadata_def Let_def files_logger cwd_logger
      split: probe_outcome.splits sum.splits)

lemma get_video_metadata_calls:
  "exists w p \<Longrightarrow> calls (snd (get_video_metadata e p w)) = calls w @ [ProbeCall p]"
  by (simp add: get_video_metadata_def Let_def calls_logger
      split: probe_outcome.splits sum.splits)

text \<open>What \<open>run_extraction\<close> can raise: a failure to create the directory or of the tool.\<close>

lemma mkdir_parents_error: "mkdir_parents p w = Inl x \<Longrightarrow> x = OSError"
proof -
  have "mkdirs pre cs fs = Inl x \<Longrightarrow> x = OSError" for pre cs fs
    by (induction pre cs fs rule: mkdirs.induct) (auto split: option.splits kind.splits)
  then show "mkdir_parents p w = Inl x \<Longrightarrow> x = OSError"
    by (auto simp: mkdir_parents_def split: sum.splits)
qed

lemma run_extraction_errors:
  assumes "fst (run_extraction e p out rate w) = Inl x"
  shows "x = OSError \<or> x = RuntimeError ''FFmpeg failed during extraction.'' \<or>
         x = FileNotFoundError ''ffmpeg''"
  using assms
  by (auto simp: run_extraction_def Let_def dest: mkdir_parents_error
      split: if_splits sum.splits prod.splits run_outcome.splits)

lemma extract_frames_body:
  "is_file w p \<Longrightarrow>
   extract_frames e p out nf iv w =
     (case extract_body e p out nf iv w of
        (Inl x, w') \<Rightarrow> (Inl x, logger CRITICAL (CriticalExtraction (name p) x) w')
      | (Inr u, w') \<Rightarrow> (Inr u, w'))"
  by (simp add: extract_frames_def is_file_def exists_def)

lemma run_extraction_calls:
  assumes "0 < rate" and "mkdirs [] (abspath w out) (files w) = Inr fs"
  shows "calls (snd (run_extraction e p out rate w)) =
         calls w @ [RunCall \<lparr>cmd_input = p, cmd_fps = rate,
                            cmd_output = joinpath out ''frame_%04d.png'', cmd_vsync = ''0''\<rparr>]"
  using assms
  by (simp add: run_extraction_def mkdir_parents_def Let_def calls_logger
      split: prod.splits run_outcome.splits)

lemma extract_frames_calls:
  "is_file w p \<Longrightarrow>
   calls (snd (extract_frames e p out nf iv w)) = calls (snd (extract_body e p out nf iv w))"
  by (simp add: extract_frames_body calls_logger split: prod.splits sum.splits)

lemma extract_body_count:
  assumes "get_video_metadata e p w = (Inr m, w1)"
  shows "extract_body e p out (Some N) iv w =
         (if duration_s m \<le> 0
          then run_extraction e p out 1 (logger WARNING (DurationDefault p) w1)
          else if float_overflow (real_of_int N) then (Inl OverflowError, w1)
          else run_extraction e p out (real_of_int N / duration_s m) w1)"
  using assms by (simp add: extract_body_def target_fps_def)

lemma probed_world:
  assumes "is_file w p" and "get_video_metadata e p w = (Inr m, w1)"
  shows "files w1 = files w" and "abspath w1 = abspath w" and "calls w1 = calls w @ [ProbeCall p]"
proof -
  from assms(1) have e: "exists w p" by (simp add: is_file_def exists_def)
  show "files w1 = files w"
    using get_video_metadata_files [of e p w] assms(2) by simp
  have "cwd w1 = cwd w"
    using get_video_metadata_cwd [of e p w] assms(2) by simp
  then show "abspath w1 = abspath w"
    by (rule same_fs_abspath)
  show "calls w1 = calls w @ [ProbeCall p]"
    using get_video_metadata_calls [OF e, of e] assms(2) by simp
qed

text \<open>
  C3 (amended): with a probed duration \<open>D\<close> and a requested frame count \<open>N\<close> the rate is
  \<open>N / D\<close> when \<open>D > 0\<close> and \<open>N\<close> is within the float range; when \<open>D \<le> 0\<close> it is exactly \<open>1\<close>,
  with a warning and no error. In \<open>extract_frames\<close>, for an existing file whose probe
  returns the metadata \<open>m\<close>:
  \<^item> with a positive duration and \<open>N\<close> within the float range, the extraction is run at the
    rate \<open>N / duration_s m\<close>, and when \<open>N\<close> is positive and the output directory can be
    created the tool is invoked with exactly that rate;
  \<^item> with a positive duration and \<open>N\<close> beyond the float range, the division of line 82
    raises \<open>OverflowError\<close>;
  \<^item> with a non-positive duration, the extraction is run at the rate \<open>1\<close> after the
    warning, the tool is invoked with the rate \<open>1\<close> when the output directory can be
    created, and whatever is raised comes from the directory or the tool: never from the
    duration.
\<close>

theorem frame_count_rate:
  "(0 < D \<and> \<not> float_overflow (real_of_int N) \<longrightarrow>
      target_fps p (Some N) iv D w = (Inr (real_of_int N / D), w)) \<and>
   (D \<le> 0 \<longrightarrow> target_fps p (Some N) iv D w = (Inr 1, logger WARNING (DurationDefault p) w)) \<and>
   (is_file w p \<and> get_video_metadata e p w = (Inr m, w1) \<and> 0 < duration_s m \<and>
    \<not> float_overflow (real_of_int N) \<longrightarrow>
      extract_frames e p out (Some N) iv w =
        (case run_extraction e p out (real_of_int N / duration_s m) w1 of
           (Inl x, w') \<Rightarrow> (Inl x, logger CRITICAL (CriticalExtraction (name p) x) w')
         | (Inr u, w') \<Rightarrow> (Inr u, w')) \<and>
      (0 < N \<and> mkdirs [] (abspath w out) (files w) = Inr fs \<longrightarrow>
         calls (snd (extract_frames e p out (Some N) iv w)) =
           calls w @
           [ProbeCall p,
            RunCall \<lparr>cmd_input = p, cmd_fps = real_of_int N / duration_s m,
                     cmd_output = joinpath out ''frame_%04d.png'', cmd_vsync = ''0''\<rparr>])) \<and>
   (is_file w p \<and> get_video_metadata e p w = (Inr m, w1) \<and> 0 < duration_s m \<and>
    float_overflow (real_of_int N) \<longrightarrow>
      extract_frames e p out (Some N) iv w =
        (Inl OverflowError, logger CRITICAL (CriticalExtraction (name p) OverflowError) w1)) \<and>
   (is_file w p \<and> get_video_metadata e p w = (Inr m, w1) \<and> duration_s m \<le> 0 \<longrightarrow>
      extract_frames e p out (Some N) iv w =
        (case run_extraction e p out 1 (logger WARNING (DurationDefault p) w1) of
           (Inl x, w') \<Rightarrow> (Inl x, logger CRITICAL (CriticalExtraction (name p) x) w')
         | (Inr u, w') \<Rightarrow> (Inr u, w')) \<and>
      (mkdirs [] (abspath w out) (files w) = Inr fs \<longrightarrow>
         calls (snd (extract_frames e p out (Some N) iv w)) =
           calls w @
           [ProbeCall p,
            RunCall \<lparr>cmd_input = p, cmd_fps = 1,
                     cmd_output = joinpath out ''frame_%04d.png'', cmd_vsync = ''0''\<rparr>]) \<and>
      (\<forall>x. fst (extract_frames e p out (Some N) iv w) = Inl x \<longrightarrow>
         x = OSError \<or> x = RuntimeError ''FFmpeg failed during extraction.'' \<or>
         x = FileNotFoundError ''ffmpeg''))"
proof (intro conjI impI)
  show "target_fps p (Some N) iv D w = (Inr (real_of_int N / D), w)"
    if "0 < D \<and> \<not> float_overflow (real_of_int N)"
    using that by (simp add: target_fps_def)
  show "target_fps p (Some N) iv D w = (Inr 1, logger WARNING (DurationDefault p) w)" if "D \<le> 0"
    using that by (simp add: target_fps_def)
next
  assume a: "is_file w p \<and> get_video_metadata e p w = (Inr m, w1) \<and> 0 < duration_s m \<and>
    \<not> float_overflow (real_of_int N)"
  then have f: "is_file w p" and g: "get_video_metadata e p w = (Inr m, w1)"
    by simp_all
  from a have b: "extract_body e p out (Some N) iv w =
      run_extraction e p out (real_of_int N / duration_s m) w1"
    by (simp add: extract_body_count [OF g])
  show "extract_frames e p out (Some N) iv w =
        (case run_extraction e p out (real_of_int N / duration_s m) w1 of
           (Inl x, w') \<Rightarrow> (Inl x, logger CRITICAL (CriticalExtraction (name p) x) w')
         | (Inr u, w') \<Rightarrow> (Inr u, w'))"
    by (simp add: extract_frames_body [OF f] b)
  assume c: "0 < N \<and> mkdirs [] (abspath w out) (files w) = Inr fs"
  with a have r: "0 < real_of_int N / duration_s m"
    by simp
  from c have d: "mkdirs [] (abspath w1 out) (files w1) = Inr fs"
    by (simp add: probed_world [OF f g])
  show "calls (snd (extract_frames e p out (Some N) iv w)) =
           calls w @
           [ProbeCall p,
            RunCall \<lparr>cmd_input = p, cmd_fps = real_of_int N / duration_s m,
                     cmd_output = joinpath out ''frame_%04d.png'', cmd_vsync = ''0''\<rparr>]"
    by (simp add: extract_frames_calls [OF f] b run_extraction_calls [OF r d]
        probed_world(3) [OF f g])
next
  assume a: "is_file w p \<and> get_video_metadata e p w = (Inr m, w1) \<and> 0 < duration_s m \<and>
    float_overflow (real_of_int N)"
  then have f: "is_file w p" and g: "get_video_metadata e p w = (Inr m, w1)"
    by simp_all
  from a show "extract_frames e p out (Some N) iv w =
        (Inl OverflowError, logger CRITICAL (CriticalExtraction (name p) OverflowError) w1)"
    by (simp add: extract_frames_body [OF f] extract_body_count [OF g])
next
  assume a: "is_file w p \<and> get_video_metadata e p w = (Inr m, w1) \<and> duration_s m \<le> 0"
  then have f: "is_file w p" and g: "get_video_metadata e p w = (Inr m, w1)"
    by simp_all
  let ?w2 = "logger WARNING (DurationDefault p) w1"
  from a have b: "extract_body e p out (Some N) iv w = run_extraction e p out 1 ?w2"
    by (simp add: extract_body_count [OF g])
  show "extract_frames e p out (Some N) iv w =
        (case run_extraction e p out 1 ?w2 of
           (Inl x, w') \<Rightarrow> (Inl x, logger CRITICAL (CriticalExtraction (name p) x) w')
         | (Inr u, w') \<Rightarrow> (Inr u, w'))"
    by (simp add: extract_frames_body [OF f] b)
  show "calls (snd (extract_frames e p out (Some N) iv w)) =
           calls w @
           [ProbeCall p,
            RunCall \<lparr>cmd_input = p, cmd_fps = 1,
                     cmd_output = joinpath out ''frame_%04d.png'', cmd_vsync = ''0''\<rparr>]"
    if c: "mkdirs [] (abspath w out) (files w) = Inr fs"
  proof -
    from c have d: "mkdirs [] (abspath ?w2 out) (files ?w2) = Inr fs"
      by (simp add: abspath_logger files_logger probed_world [OF f g])
    have r: "(0 :: real) < 1" by simp
    show ?thesis
      by (simp add: extract_frames_calls [OF f] b run_extraction_calls [OF r d] calls_logger
          probed_world(3) [OF f g])
  qed
  show "\<forall>x. fst (extract_frames e p out (Some N) iv w) = Inl x \<longrightarrow>
         x = OSError \<or> x = RuntimeError ''FFmpeg failed during extraction.'' \<or>
         x = FileNotFoundError ''ffmpeg''"
  proof (intro allI impI)
    fix x assume "fst (extract_frames e p out (Some N) iv w) = Inl x"
    with f have "fst (run_extraction e p out 1 ?w2) = Inl x"
      by (auto simp: extract_frames_body b split: prod.splits sum.splits)
    then show "x = OSError \<or> x = RuntimeError ''FFmpeg failed during extraction.'' \<or>
         x = FileNotFoundError ''ffmpeg''"
      by (rule run_extraction_errors)
  qed
qed

text \<open>
  C4 (amended): for \<open>I > 0\<close> the rate is \<open>1 / I\<close>; for \<open>I \<le> 0\<close> the rate computation
  raises the validation error. In \<open>extract_frames\<close> that happens once the video file has
  been checked and probed successfully: the probe is the only tool invocation made, the
  file system is unchanged (no output directory is created) and the extraction command is
  not run. When probing fails, the probe's error is raised instead.
\<close>

theorem interval_rate:
  "(0 < I \<longrightarrow> target_fps p None (Some I) D w = (Inr (1 / I), w)) \<and>
   (I \<le> 0 \<longrightarrow>
      target_fps p None (Some I) D w =
        (Inl (ValueError ''Interval seconds must be greater than 0.''), w)) \<and>
   (I \<le> 0 \<and> is_file w p \<and> get_video_metadata e p w = (Inr m, w1) \<longrightarrow>
      extract_frames e p out None (Some I) w =
        (Inl (ValueError ''Interval seconds must be greater than 0.''),
         logger CRITICAL
           (CriticalExtraction (name p) (ValueError ''Interval seconds must be greater than 0.'')) w1) \<and>
      files w1 = files w \<and> calls w1 = calls w @ [ProbeCall p]) \<and>
   (is_file w p \<and> get_video_metadata e p w = (Inl x, w1) \<longrightarrow>
      fst (extract_frames e p out None (Some I) w) = Inl x)"
proof (intro conjI impI)
  show "target_fps p None (Some I) D w = (Inr (1 / I), w)" if "0 < I"
    using that by (simp add: target_fps_def)
  show "target_fps p None (Some I) D w =
        (Inl (ValueError ''Interval seconds must be greater than 0.''), w)" if "I \<le> 0"
    using that by (simp add: target_fps_def)
  show "fst (extract_frames e p out None (Some I) w) = Inl x"
    if "is_file w p \<and> get_video_metadata e p w = (Inl x, w1)"
    using that by (simp add: extract_frames_body extract_body_def)
next
  assume a: "I \<le> 0 \<and> is_file w p \<and> get_video_metadata e p w = (Inr m, w1)"
  then show "extract_frames e p out None (Some I) w =
        (Inl (ValueError ''Interval seconds must be greater than 0.''),
         logger CRITICAL
           (CriticalExtraction (name p) (ValueError ''Interval seconds must be greater than 0.'')) w1)"
    by (simp add: extract_frames_body extract_body_def target_fps_def)
  from a have e: "exists w p" by (simp add: is_file_def exists_def)
  from a show "files w1 = files w"
    using get_video_metadata_files [of e p w] by simp
  from a show "calls w1 = calls w @ [ProbeCall p]"
    using get_video_metadata_calls [OF e, of e] by simp
qed

lemmas extract_simps = extract_frames_def extract_body_def target_fps_def run_extraction_def
  mkdir_parents_def

lemma still_metadata:
  "get_video_metadata (sample_env JNull) (Path ''/a/still.mp4'') sample_world =
     (Inr \<lparr>duration_s = 0, width = JInt 640, height = JInt 480, fps = 25\<rparr>,
      sample_world
        \<lparr>logged := [(WARNING, InvalidMetadata (Path ''/a/still.mp4'') 0 25)],
         calls := [ProbeCall (Path ''/a/still.mp4'')]\<rparr>)"
  by (simp add: probe_simps path_simps fs_simps int_simps)

lemma v1_metadata:
  "get_video_metadata (sample_env JNull) (Path ''/a/v1.mp4'') sample_world =
     (Inl (RuntimeError ''Could not get video metadata''),
      sample_world
        \<lparr>logged := [(ERROR, FFprobeError (Path ''/a/v1.mp4'') ''moov atom not found'')],
         calls := [ProbeCall (Path ''/a/v1.mp4'')]\<rparr>)"
  by (simp add: probe_simps path_simps fs_simps)

lemma sample_files:
  "is_file sample_world (Path ''/b/v2.mp4'')"
  "is_file sample_world (Path ''/a/v1.mp4'')"
  "is_file sample_world (Path ''/a/still.mp4'')"
  by (simp_all add: sample_world_def path_simps fs_simps)


lemma sample_exists:
  "exists sample_world (Path ''/b/v2.mp4'')"
  "exists sample_world (Path ''/a/v1.mp4'')"
  "exists sample_world (Path ''/a/still.mp4'')"
  by (simp_all add: sample_world_def path_simps fs_simps)

lemma v2_frames_mkdirs:
  "mkdirs [] (abspath sample_world (Path ''/b/frames'')) (files sample_world) =
     Inr (files sample_world @ [([''b'', ''frames''], Dir)])"
  by (simp add: sample_world_def path_simps fs_simps)

lemma still_frames_mkdirs:
  "mkdirs [] (abspath sample_world (Path ''/a/frames'')) (files sample_world) =
     Inr (files sample_world @ [([''a'', ''frames''], Dir)])"
  by (simp add: sample_world_def path_simps fs_simps)

theorem frame_count_rate_witness:
  "(0 :: real) < 10 \<and> \<not> float_overflow (real_of_int 5) \<and>
   target_fps (Path ''/b/v2.mp4'') (Some 5) None 10 sample_world = (Inr (1 / 2), sample_world) \<and>
   (0 :: real) \<le> 0 \<and>
   target_fps (Path ''/a/still.mp4'') (Some 5) None 0 sample_world =
     (Inr 1, logger WARNING (DurationDefault (Path ''/a/still.mp4'')) sample_world) \<and>
   is_file sample_world (Path ''/b/v2.mp4'') \<and>
   get_video_metadata (sample_env JNull) (Path ''/b/v2.mp4'') sample_world =
     (Inr \<lparr>duration_s = 10, width = JInt 1920, height = JInt 1080, fps = 30000 / 1001\<rparr>,
      sample_world\<lparr>calls := [ProbeCall (Path ''/b/v2.mp4'')]\<rparr>) \<and>
   (0 :: int) < 5 \<and>
   mkdirs [] (abspath sample_world (Path ''/b/frames'')) (files sample_world) =
     Inr (files sample_world @ [([''b'', ''frames''], Dir)]) \<and>
   calls (snd (extract_frames (sample_env JNull) (Path ''/b/v2.mp4'') (Path ''/b/frames'')
                 (Some 5) None sample_world)) =
     [ProbeCall (Path ''/b/v2.mp4''),
      RunCall \<lparr>cmd_input = Path ''/b/v2.mp4'', cmd_fps = 1 / 2,
               cmd_output = Path ''/b/frames/frame_%04d.png'', cmd_vsync = ''0''\<rparr>] \<and>
   float_overflow (real_of_int (10 ^ 400)) \<and>
   extract_frames (sample_env JNull) (Path ''/b/v2.mp4'') (Path ''/b/frames'')
       (Some (10 ^ 400)) None sample_world =
     (Inl OverflowError,
      logger CRITICAL (CriticalExtraction ''v2.mp4'' OverflowError)
        (sample_world\<lparr>calls := [ProbeCall (Path ''/b/v2.mp4'')]\<rparr>)) \<and>
   is_file sample_world (Path ''/a/still.mp4'') \<and>
   get_video_metadata (sample_env JNull) (Path ''/a/still.mp4'') sample_world =
     (Inr \<lparr>duration_s = 0, width = JInt 640, height = JInt 480, fps = 25\<rparr>,
      sample_world
        \<lparr>logged := [(WARNING, InvalidMetadata (Path ''/a/still.mp4'') 0 25)],
         calls := [ProbeCall (Path ''/a/still.mp4'')]\<rparr>) \<and>
   mkdirs [] (abspath sample_world (Path ''/a/frames'')) (files sample_world) =
     Inr (files sample_world @ [([''a'', ''frames''], Dir)]) \<and>
   calls (snd (extract_frames (sample_env JNull) (Path ''/a/still.mp4'') (Path ''/a/frames'')
                 (Some 5) None sample_world)) =
     [ProbeCall (Path ''/a/still.mp4''),
      RunCall \<lparr>cmd_input = Path ''/a/still.mp4'', cmd_fps = 1,
               cmd_output = Path ''/a/frames/frame_%04d.png'', cmd_vsync = ''0''\<rparr>]"
proof -
  let ?e = "sample_env JNull"
  let ?m = "\<lparr>duration_s = 0, width = JInt 640, height = JInt 480, fps = 25\<rparr>"
  let ?w1 = "sample_world
        \<lparr>logged := [(WARNING, InvalidMetadata (Path ''/a/still.mp4'') 0 25)],
         calls := [ProbeCall (Path ''/a/still.mp4'')]\<rparr>"
  let ?m2 = "\<lparr>duration_s = 10, width = JInt 1920, height = JInt 1080, fps = 30000 / 1001\<rparr>"
  let ?w2 = "sample_world\<lparr>calls := [ProbeCall (Path ''/b/v2.mp4'')]\<rparr>"
  note t1 = frame_count_rate [where D = 10 and N = 5 and p = "Path ''/b/v2.mp4''" and iv = None
      and w = sample_world and e = ?e and m = ?m2 and ?w1.0 = ?w2 and out = "Path ''/b/frames''"
      and fs = "files sample_world @ [([''b'', ''frames''], Dir)]"]
  note t2 = frame_count_rate [where D = 0 and N = 5 and p = "Path ''/a/still.mp4''" and iv = None
      and w = sample_world and e = ?e and m = ?m and ?w1.0 = ?w1 and out = "Path ''/a/frames''"
      and fs = "files sample_world @ [([''a'', ''frames''], Dir)]"]
  note t3 = frame_count_rate [where N = "10 ^ 400" and p = "Path ''/b/v2.mp4''" and iv = None
      and w = sample_world and e = ?e and m = ?m2 and ?w1.0 = ?w2 and out = "Path ''/b/frames''"]
  have p1: "(0 :: real) < 10" and p2: "(0 :: real) \<le> 0" and p3: "(0 :: int) < 5"
    by simp_all
  have o1: "\<not> float_overflow (real_of_int 5)"
    by (simp add: float_overflow_def)
  have o2: "float_overflow (real_of_int (10 ^ 400))"
    by (simp add: float_overflow_def)
  have r1: "target_fps (Path ''/b/v2.mp4'') (Some 5) None 10 sample_world =
      (Inr (1 / 2), sample_world)"
    using mp [OF conjunct1 [OF t1] conjI [OF p1 o1]] by simp
  have r2: "target_fps (Path ''/a/still.mp4'') (Some 5) None 0 sample_world =
     (Inr 1, logger WARNING (DurationDefault (Path ''/a/still.mp4'')) sample_world)"
    by (rule mp [OF conjunct1 [OF conjunct2 [OF t2]] p2])
  have h1: "is_file sample_world (Path ''/b/v2.mp4'') \<and>
     get_video_metadata ?e (Path ''/b/v2.mp4'') sample_world = (Inr ?m2, ?w2) \<and>
     0 < duration_s ?m2 \<and> \<not> float_overflow (real_of_int 5)"
    using sample_files(1) v2_metadata o1 by simp
  note q1 = mp [OF conjunct1 [OF conjunct2 [OF conjunct2 [OF t1]]] h1]
  have r3: "calls (snd (extract_frames ?e (Path ''/b/v2.mp4'') (Path ''/b/frames'')
                 (Some 5) None sample_world)) =
     [ProbeCall (Path ''/b/v2.mp4''),
      RunCall \<lparr>cmd_input = Path ''/b/v2.mp4'', cmd_fps = 1 / 2,
               cmd_output = Path ''/b/frames/frame_%04d.png'', cmd_vsync = ''0''\<rparr>]"
    using mp [OF conjunct2 [OF q1] conjI [OF p3 v2_frames_mkdirs]]
    by (simp add: sample_world_def path_simps)
  have h3: "is_file sample_world (Path ''/b/v2.mp4'') \<and>
     get_video_metadata ?e (Path ''/b/v2.mp4'') sample_world = (Inr ?m2, ?w2) \<and>
     0 < duration_s ?m2 \<and> float_overflow (real_of_int (10 ^ 400))"
    using sample_files(1) v2_metadata o2 by simp
  have r4: "extract_frames ?e (Path ''/b/v2.mp4'') (Path ''/b/frames'')
       (Some (10 ^ 400)) None sample_world =
     (Inl OverflowError, logger CRITICAL (CriticalExtraction ''v2.mp4'' OverflowError) ?w2)"
    using mp [OF conjunct1 [OF conjunct2 [OF conjunct2 [OF conjunct2 [OF t3]]]] h3]
    by (simp add: path_simps)
  have h2: "is_file sample_world (Path ''/a/still.mp4'') \<and>
     get_video_metadata ?e (Path ''/a/still.mp4'') sample_world = (Inr ?m, ?w1) \<and>
     duration_s ?m \<le> 0"
    using sample_files(3) still_metadata by simp
  note q2 = mp [OF conjunct2 [OF conjunct2 [OF conjunct2 [OF conjunct2 [OF t2]]]] h2]
  have r5: "calls (snd (extract_frames ?e (Path ''/a/still.mp4'') (Path ''/a/frames'')
                 (Some 5) None sample_world)) =
     [ProbeCall (Path ''/a/still.mp4''),
      RunCall \<lparr>cmd_input = Path ''/a/still.mp4'', cmd_fps = 1,
               cmd_output = Path ''/a/frames/frame_%04d.png'', cmd_vsync = ''0''\<rparr>]"
    using mp [OF conjunct1 [OF conjunct2 [OF q2]] still_frames_mkdirs]
    by (simp add: sample_world_def path_simps)
  from p1 o1 r1 p2 r2 sample_files(1) v2_metadata p3 v2_frames_mkdirs r3 o2 r4
    sample_files(3) still_metadata still_frames_mkdirs r5
  show ?thesis
    by (intro conjI)
qed

text \<open>
  A frame count of \<open>10 ^ 400\<close> for a video of duration \<open>10\<close>: the rate is not \<open>N / D\<close>, the
  division raises \<open>OverflowError\<close> and the extraction of this video fails.
\<close>

theorem frame_count_rate_counterexample:
  "target_fps (Path ''/b/v2.mp4'') (Some (10 ^ 400)) None 10 sample_world =
     (Inl OverflowError, sample_world) \<and>
   fst (extract_frames (sample_env JNull) (Path ''/b/v2.mp4'') (Path ''/b/frames'')
          (Some (10 ^ 400)) None sample_world) = Inl OverflowError \<and>
   files (snd (extract_frames (sample_env JNull) (Path ''/b/v2.mp4'') (Path ''/b/frames'')
          (Some (10 ^ 400)) None sample_world)) = files sample_world"
  by (simp add: extract_frames_def extract_body_def target_fps_def v2_metadata
      sample_exists sample_files float_overflow_def files_logger)

lemma v2_zero_interval:
  "extract_frames (sample_env JNull) (Path ''/b/v2.mp4'') (Path ''/b/frames'') None (Some 0)
     sample_world =
     (Inl (ValueError ''Interval seconds must be greater than 0.''),
      logger CRITICAL
        (CriticalExtraction (name (Path ''/b/v2.mp4''))
           (ValueError ''Interval seconds must be greater than 0.''))
        (sample_world\<lparr>calls := [ProbeCall (Path ''/b/v2.mp4'')]\<rparr>))"
  by (simp add: extract_frames_def extract_body_def target_fps_def v2_metadata
      sample_exists sample_files)

lemma v1_zero_interval:
  "fst (extract_frames (sample_env JNull) (Path ''/a/v1.mp4'') (Path ''/a/frames'') None (Some 0)
          sample_world) = Inl (RuntimeError ''Could not get video metadata'')"
  by (simp add: extract_frames_def extract_body_def v1_metadata sample_exists sample_files)

theorem interval_rate_witness:
  "(0 :: real) < 2 \<and>
   target_fps (Path ''/b/v2.mp4'') None (Some 2) 10 sample_world = (Inr (1 / 2), sample_world) \<and>
   (0 :: real) \<le> 0 \<and>
   target_fps (Path ''/b/v2.mp4'') None (Some 0) 10 sample_world =
     (Inl (ValueError ''Interval seconds must be greater than 0.''), sample_world) \<and>
   is_file sample_world (Path ''/b/v2.mp4'') \<and>
   get_video_metadata (sample_env JNull) (Path ''/b/v2.mp4'') sample_world =
     (Inr \<lparr>duration_s = 10, width = JInt 1920, height = JInt 1080, fps = 30000 / 1001\<rparr>,
      sample_world\<lparr>calls := [ProbeCall (Path ''/b/v2.mp4'')]\<rparr>) \<and>
   extract_frames (sample_env JNull) (Path ''/b/v2.mp4'') (Path ''/b/frames'') None (Some 0)
     sample_world =
     (Inl (ValueError ''Interval seconds must be greater than 0.''),
      logger CRITICAL
        (CriticalExtraction (name (Path ''/b/v2.mp4''))
           (ValueError ''Interval seconds must be greater than 0.''))
        (sample_world\<lparr>calls := [ProbeCall (Path ''/b/v2.mp4'')]\<rparr>)) \<and>
   files (sample_world\<lparr>calls := [ProbeCall (Path ''/b/v2.mp4'')]\<rparr>) = files sample_world \<and>
   calls (sample_world\<lparr>calls := [ProbeCall (Path ''/b/v2.mp4'')]\<rparr>) =
     calls sample_world @ [ProbeCall (Path ''/b/v2.mp4'')] \<and>
   is_file sample_world (Path ''/a/v1.mp4'') \<and>
   get_video_metadata (sample_env JNull) (Path ''/a/v1.mp4'') sample_world =
     (Inl (RuntimeError ''Could not get video metadata''),
      sample_world
        \<lparr>logged := [(ERROR, FFprobeError (Path ''/a/v1.mp4'') ''moov atom not found'')],
         calls := [ProbeCall (Path ''/a/v1.mp4'')]\<rparr>) \<and>
   fst (extract_frames (sample_env JNull) (Path ''/a/v1.mp4'') (Path ''/a/frames'') None (Some 0)
          sample_world) = Inl (RuntimeError ''Could not get video metadata'')"
proof -
  let ?m = "\<lparr>duration_s = 10, width = JInt 1920, height = JInt 1080, fps = 30000 / 1001\<rparr>"
  let ?w2 = "sample_world\<lparr>calls := [ProbeCall (Path ''/b/v2.mp4'')]\<rparr>"
  let ?w1 = "sample_world
        \<lparr>logged := [(ERROR, FFprobeError (Path ''/a/v1.mp4'') ''moov atom not found'')],
         calls := [ProbeCall (Path ''/a/v1.mp4'')]\<rparr>"
  note t1 = interval_rate [of 2 "Path ''/b/v2.mp4''" 10 sample_world]
  note t2 = interval_rate [of 0 "Path ''/b/v2.mp4''" 10 sample_world "sample_env JNull" ?m ?w2
      "Path ''/b/frames''"]
  note t3 = interval_rate [of 0 "Path ''/a/v1.mp4''" 10 sample_world "sample_env JNull" ?m ?w1
      "Path ''/a/frames''" "RuntimeError ''Could not get video metadata''"]
  have p1: "(0 :: real) < 2" and p2: "(0 :: real) \<le> 0" by simp_all
  have r1: "target_fps (Path ''/b/v2.mp4'') None (Some 2) 10 sample_world = (Inr (1 / 2), sample_world)"
    by (rule mp [OF conjunct1 [OF t1] p1])
  have r2: "target_fps (Path ''/b/v2.mp4'') None (Some 0) 10 sample_world =
     (Inl (ValueError ''Interval seconds must be greater than 0.''), sample_world)"
    by (rule mp [OF conjunct1 [OF conjunct2 [OF t2]] p2])
  have h2: "(0 :: real) \<le> 0 \<and> is_file sample_world (Path ''/b/v2.mp4'') \<and>
     get_video_metadata (sample_env JNull) (Path ''/b/v2.mp4'') sample_world = (Inr ?m, ?w2)"
    using sample_files(1) v2_metadata by simp
  note r3 = mp [OF conjunct1 [OF conjunct2 [OF conjunct2 [OF t2]]] h2]
  have h3: "is_file sample_world (Path ''/a/v1.mp4'') \<and>
     get_video_metadata (sample_env JNull) (Path ''/a/v1.mp4'') sample_world =
       (Inl (RuntimeError ''Could not get video metadata''), ?w1)"
    using sample_files(2) v1_metadata by simp
  note r4 = mp [OF conjunct2 [OF conjunct2 [OF conjunct2 [OF t3]]] h3]
  from p1 r1 p2 r2 sample_files(1) v2_metadata r3 sample_files(2) v1_metadata r4
  show ?thesis by (intro conjI) blast+
qed

text \<open>
  With \<open>I = 0\<close> the probe has been invoked by the time the validation error is raised,
  and for a video that cannot be probed the error raised is the prober's.
\<close>

theorem interval_rate_counterexample:
  "calls (snd (extract_frames (sample_env JNull) (Path ''/b/v2.mp4'') (Path ''/b/frames'')
          None (Some 0) sample_world)) = [ProbeCall (Path ''/b/v2.mp4'')] \<and>
   fst (extract_frames (sample_env JNull) (Path ''/a/v1.mp4'') (Path ''/a/frames'') None (Some 0)
          sample_world) = Inl (RuntimeError ''Could not get video metadata'')"
  by (simp add: v2_zero_interval v1_zero_interval calls_logger)

section \<open>Job Driver: manifests, batches and output directories\<close>

lemma setup_ffmpeg_path_files: "files (setup_ffmpeg_path e w) = files w"
  and setup_ffmpeg_path_cwd: "cwd (setup_ffmpeg_path e w) = cwd w"
  and setup_ffmpeg_path_calls: "calls (setup_ffmpeg_path e w) = calls w"
  by (simp_all add: setup_ffmpeg_path_def files_logger cwd_logger calls_logger
      split: option.splits)

lemma startup_exists:
  "exists (logger INFO SetupCompleted (setup_ffmpeg_path e w)) p = exists w p"
  by (simp add: exists_def abspath_def files_logger cwd_logger setup_ffmpeg_path_files
      setup_ffmpeg_path_cwd)

lemma startup_is_dir:
  "is_dir (logger INFO SetupCompleted (setup_ffmpeg_path e w)) p = is_dir w p"
  by (simp add: is_dir_def abspath_def files_logger cwd_logger setup_ffmpeg_path_files
      setup_ffmpeg_path_cwd)

lemma setup_is_dir: "is_dir (setup_ffmpeg_path e w) p = is_dir w p"
  by (simp add: is_dir_def abspath_def setup_ffmpeg_path_files setup_ffmpeg_path_cwd)

lemma process_videos_foldl:
  "process_videos e od nf iv n vs w =
   foldl (\<lambda>w v. try_extract e v (output_dir_for n od v) nf iv w) w vs"
  by (induction vs arbitrary: w) simp_all

lemma paths_of_strings: "paths_of (map JStr ss) = Inr (map Path ss)"
  by (induction ss) simp_all

lemma manifest_videos_malformed:
  "\<not> has_videos_list (Loaded data) \<Longrightarrow> \<exists>x. manifest_videos data = Inl x"
  by (auto simp: has_videos_list_def manifest_videos_def split: json.splits option.splits)

lemma load_manifest_malformed:
  assumes "\<not> has_videos_list (json_load e ip)"
  shows "\<exists>out w1. load_manifest e ip w = (Inl out, w1) \<and> exit_status out \<noteq> 0 \<and>
           files w1 = files w \<and> calls w1 = calls w"
proof (cases "json_load e ip")
  case (Loaded data)
  with assms obtain x where "manifest_videos data = Inl x"
    using manifest_videos_malformed by auto
  with Loaded show ?thesis
    by (simp add: load_manifest_def Let_def files_logger calls_logger)
next
  case DecodeError
  then show ?thesis
    by (simp add: load_manifest_def Let_def files_logger calls_logger)
next
  case UnicodeError
  then show ?thesis
    by (simp add: load_manifest_def Let_def files_logger calls_logger)
qed

text \<open>
  C5: when the input path has the manifest extension and the loaded document is not a
  dictionary with a \<^verbatim>\<open>videos\<close> list (or cannot be parsed at all), the process ends with a
  non-zero exit status and no video is processed: the file system is unchanged and no
  external tool is invoked.
\<close>

theorem malformed_manifest_fatal:
  assumes "lower (suffix (Path p)) = ''.json''"
    and "\<not> has_videos_list (json_load e (Path p))"
  shows "exit_status (fst (main e (Extract p od nf iv) w)) \<noteq> 0 \<and>
         files (snd (main e (Extract p od nf iv) w)) = files w \<and>
         calls (snd (main e (Extract p od nf iv) w)) = calls w"
proof -
  let ?w0 = "logger INFO SetupCompleted (setup_ffmpeg_path e w)"
  have f0: "files ?w0 = files w" and c0: "calls ?w0 = calls w"
    by (simp_all add: files_logger calls_logger setup_ffmpeg_path_files setup_ffmpeg_path_calls)
  show ?thesis
  proof (cases "exists ?w0 (Path p)")
    case False
    then show ?thesis
      by (simp add: main_def Let_def files_logger calls_logger setup_ffmpeg_path_files
          setup_ffmpeg_path_calls)
  next
    case True
    obtain out w1 where "load_manifest e (Path p) ?w0 = (Inl out, w1)" "exit_status out \<noteq> 0"
      "files w1 = files ?w0" "calls w1 = calls ?w0"
      using load_manifest_malformed [OF assms(2)] by blast
    with True assms(1) show ?thesis
      by (simp add: main_def Let_def f0 c0)
  qed
qed

text \<open>
  C6: for a manifest that is a dictionary whose \<^verbatim>\<open>videos\<close> entry is a list of strings,
  \<open>main\<close> returns normally (exit status 0) whatever happens to the single videos, and its
  final world is the left-to-right fold of the per-video step over the listed paths. The
  per-video step never raises: a failed extraction is turned into one \<open>ERROR\<close> log entry.
\<close>

theorem batch_continues_in_order:
  assumes "lower (suffix (Path p)) = ''.json''"
    and "exists w (Path p)" and "\<not> is_dir w (Path p)"
    and "json_load e (Path p) = Loaded (JObj kv)"
    and "map_of kv ''videos'' = Some (JList (map JStr ss))"
  shows "main e (Extract p od nf iv) w =
           (Returned,
            foldl (\<lambda>w v. try_extract e v (output_dir_for (length ss) od v) nf iv w)
              (logger INFO (FoundVideos (length ss))
                 (logger INFO (DetectedJson (Path p))
                    (logger INFO SetupCompleted (setup_ffmpeg_path e w))))
              (map Path ss)) \<and>
         exit_status (fst (main e (Extract p od nf iv) w)) = 0 \<and>
         (\<forall>v out w1 x w2. extract_frames e v out nf iv w1 = (Inl x, w2) \<longrightarrow>
            try_extract e v out nf iv w1 = logger ERROR (CouldNotProcess (name v) x) w2) \<and>
         (\<forall>v out w1 u w2. extract_frames e v out nf iv w1 = (Inr u, w2) \<longrightarrow>
            try_extract e v out nf iv w1 = w2)"
proof -
  let ?w0 = "logger INFO SetupCompleted (setup_ffmpeg_path e w)"
  have "load_manifest e (Path p) ?w0 = (Inr (map Path ss), logger INFO (DetectedJson (Path p)) ?w0)"
    using assms(3,4,5)
    by (simp add: load_manifest_def Let_def manifest_videos_def paths_of_strings
        is_dir_logger setup_is_dir)
  then have m: "main e (Extract p od nf iv) w =
           (Returned,
            foldl (\<lambda>w v. try_extract e v (output_dir_for (length ss) od v) nf iv w)
              (logger INFO (FoundVideos (length ss)) (logger INFO (DetectedJson (Path p)) ?w0))
              (map Path ss))"
    using assms(1,2)
    by (simp add: main_def Let_def startup_exists process_videos_foldl)
  then show ?thesis
    by (simp add: try_extract_def)
qed

lemmas main_simps = main_def load_manifest_def manifest_videos_def setup_ffmpeg_path_def
  find_ffmpeg_bin_directory_def output_dir_for_def try_extract_def suffix_def

lemma batch_suffix: "lower (suffix (Path ''/batch.json'')) = ''.json''"
  by (simp add: suffix_def path_simps)

lemma wrong_key_run:
  "main (sample_env wrong_key) (Extract ''/batch.json'' None (Some 5) None) sample_world =
     (SysExit 1,
      sample_world
        \<lparr>logged :=
           [(ERROR, BinariesNotFound), (INFO, SetupCompleted),
            (INFO, DetectedJson (Path ''/batch.json'')),
            (ERROR, BatchParseFailed
               (ValueError ''JSON must have a videos key with a list of file paths.''))]\<rparr>)"
  by (simp add: main_simps wrong_key_def sample_env_def sample_world_def path_simps fs_simps)

theorem malformed_manifest_fatal_witness:
  "lower (suffix (Path ''/batch.json'')) = ''.json'' \<and>
   \<not> has_videos_list (json_load (sample_env wrong_key) (Path ''/batch.json'')) \<and>
   exit_status (fst (main (sample_env wrong_key) (Extract ''/batch.json'' None (Some 5) None)
     sample_world)) \<noteq> 0 \<and>
   files (snd (main (sample_env wrong_key) (Extract ''/batch.json'' None (Some 5) None)
     sample_world)) = files sample_world \<and>
   calls (snd (main (sample_env wrong_key) (Extract ''/batch.json'' None (Some 5) None)
     sample_world)) = calls sample_world \<and>
   fst (main (sample_env wrong_key) (Extract ''/batch.json'' None (Some 5) None) sample_world) =
     SysExit 1"
proof -
  have h: "\<not> has_videos_list (json_load (sample_env wrong_key) (Path ''/batch.json''))"
    by (simp add: has_videos_list_def sample_env_def wrong_key_def)
  note t = malformed_manifest_fatal [OF batch_suffix h, of None "Some 5" None sample_world]
  have x: "fst (main (sample_env wrong_key) (Extract ''/batch.json'' None (Some 5) None) sample_world) =
     SysExit 1"
    by (simp add: wrong_key_run)
  from batch_suffix h t x show ?thesis by blast
qed

lemma two_videos_run:
  "main (sample_env two_videos) (Extract ''/batch.json'' None (Some 5) None) sample_world =
     (Returned,
      sample_world
        \<lparr>files := files sample_world @
           [([''b'', ''frames''], Dir), ([''b'', ''frames'', ''frame_0001.png''], File)],
         logged :=
           [(ERROR, BinariesNotFound), (INFO, SetupCompleted),
            (INFO, DetectedJson (Path ''/batch.json'')),
            (INFO, FoundVideos 2),
            (ERROR, FFprobeError (Path ''/a/v1.mp4'') ''moov atom not found''),
            (CRITICAL, CriticalExtraction ''v1.mp4''
               (RuntimeError ''Could not get video metadata'')),
            (ERROR, CouldNotProcess ''v1.mp4'' (RuntimeError ''Could not get video metadata'')),
            (INFO, FFmpegCommand ''v2.mp4''
               \<lparr>cmd_input = Path ''/b/v2.mp4'', cmd_fps = 1 / 2,
                  cmd_output = Path ''/b/frames/frame_%04d.png'', cmd_vsync = ''0''\<rparr>),
            (INFO, FramesExtracted (Path ''/b/frames''))],
         calls :=
           [ProbeCall (Path ''/a/v1.mp4''), ProbeCall (Path ''/b/v2.mp4''),
            RunCall \<lparr>cmd_input = Path ''/b/v2.mp4'', cmd_fps = 1 / 2,
                     cmd_output = Path ''/b/frames/frame_%04d.png'', cmd_vsync = ''0''\<rparr>]\<rparr>)"
  by (simp add: main_simps two_videos_def extract_simps probe_simps path_simps fs_simps int_simps)


lemma batch_file:
  "exists sample_world (Path ''/batch.json'')" "\<not> is_dir sample_world (Path ''/batch.json'')"
  by (simp_all add: sample_world_def path_simps fs_simps)

theorem batch_continues_in_order_witness:
  "lower (suffix (Path ''/batch.json'')) = ''.json'' \<and>
   exists sample_world (Path ''/batch.json'') \<and> \<not> is_dir sample_world (Path ''/batch.json'') \<and>
   json_load (sample_env two_videos) (Path ''/batch.json'') =
     Loaded (JObj [(''videos'', JList (map JStr [''/a/v1.mp4'', ''/b/v2.mp4'']))]) \<and>
   map_of [(''videos'', JList (map JStr [''/a/v1.mp4'', ''/b/v2.mp4'']))] ''videos'' =
     Some (JList (map JStr [''/a/v1.mp4'', ''/b/v2.mp4''])) \<and>
   exit_status (fst (main (sample_env two_videos) (Extract ''/batch.json'' None (Some 5) None)
     sample_world)) = 0 \<and>
   (ERROR, CouldNotProcess ''v1.mp4'' (RuntimeError ''Could not get video metadata''))
     \<in> set (logged (snd (main (sample_env two_videos) (Extract ''/batch.json'' None (Some 5) None)
       sample_world))) \<and>
   ([''b'', ''frames'', ''frame_0001.png''], File)
     \<in> set (files (snd (main (sample_env two_videos) (Extract ''/batch.json'' None (Some 5) None)
       sample_world)))"
proof -
  have h4: "json_load (sample_env two_videos) (Path ''/batch.json'') =
     Loaded (JObj [(''videos'', JList (map JStr [''/a/v1.mp4'', ''/b/v2.mp4'']))])"
    by (simp add: sample_env_def two_videos_def)
  have h5: "map_of [(''videos'', JList (map JStr [''/a/v1.mp4'', ''/b/v2.mp4'']))] ''videos'' =
     Some (JList (map JStr [''/a/v1.mp4'', ''/b/v2.mp4'']))"
    by simp
  note t = batch_continues_in_order [OF batch_suffix batch_file h4 h5, of None "Some 5" None]
  have x: "exit_status (fst (main (sample_env two_videos) (Extract ''/batch.json'' None (Some 5) None)
     sample_world)) = 0"
    by (rule conjunct1 [OF conjunct2 [OF t]])
  have l: "(ERROR, CouldNotProcess ''v1.mp4'' (RuntimeError ''Could not get video metadata''))
     \<in> set (logged (snd (main (sample_env two_videos) (Extract ''/batch.json'' None (Some 5) None)
       sample_world)))"
    by (simp add: two_videos_run)
  have f: "([''b'', ''frames'', ''frame_0001.png''], File)
     \<in> set (files (snd (main (sample_env two_videos) (Extract ''/batch.json'' None (Some 5) None)
       sample_world)))"
    by (simp add: two_videos_run)
  from batch_suffix batch_file h4 h5 x l f show ?thesis by blast
qed

lemma output_dir_default:
  "n \<noteq> 1 \<or> od = None \<or> od = Some [] \<Longrightarrow> output_dir_for n od v = joinpath (parent v) ''frames''"
  by (auto simp: output_dir_for_def split: option.splits)

text \<open>
  The choice of line 212 where it does what the option's help text says: when the input
  is a single video (not a manifest) and a non-empty custom output directory is supplied,
  the frames go to that directory; when no override (or an empty one) is supplied, to
  \<^verbatim>\<open><parent>/frames\<close>. Whenever the number of videos is not one, or no override is
  supplied, every video's output directory is its own \<^verbatim>\<open><parent>/frames\<close>; in particular a
  manifest listing several videos (or none) ignores any override.
\<close>

lemma output_directory_choice:
  "(lower (suffix (Path p)) \<noteq> ''.json'' \<and> exists w (Path p) \<and> d \<noteq> [] \<longrightarrow>
      main e (Extract p (Some d) nf iv) w =
        (Returned,
         try_extract e (Path p) (Path d) nf iv
           (logger INFO (FoundVideos 1) (logger INFO SetupCompleted (setup_ffmpeg_path e w))))) \<and>
   (lower (suffix (Path p)) \<noteq> ''.json'' \<and> exists w (Path p) \<and> (od = None \<or> od = Some []) \<longrightarrow>
      main e (Extract p od nf iv) w =
        (Returned,
         try_extract e (Path p) (joinpath (parent (Path p)) ''frames'') nf iv
           (logger INFO (FoundVideos 1) (logger INFO SetupCompleted (setup_ffmpeg_path e w))))) \<and>
   (length vs \<noteq> 1 \<or> od = None \<or> od = Some [] \<longrightarrow>
      process_videos e od nf iv (length vs) vs w' =
        foldl (\<lambda>w v. try_extract e v (joinpath (parent v) ''frames'') nf iv w) w' vs) \<and>
   (lower (suffix (Path p)) = ''.json'' \<and> exists w (Path p) \<and>
    load_manifest e (Path p) (logger INFO SetupCompleted (setup_ffmpeg_path e w)) = (Inr vs, w1) \<and>
    length vs \<noteq> 1 \<longrightarrow>
      main e (Extract p od nf iv) w =
        (Returned,
         foldl (\<lambda>w v. try_extract e v (joinpath (parent v) ''frames'') nf iv w)
           (logger INFO (FoundVideos (length vs)) w1) vs))"
proof (intro conjI impI)
  show "main e (Extract p (Some d) nf iv) w =
        (Returned,
         try_extract e (Path p) (Path d) nf iv
           (logger INFO (FoundVideos 1) (logger INFO SetupCompleted (setup_ffmpeg_path e w))))"
    if "lower (suffix (Path p)) \<noteq> ''.json'' \<and> exists w (Path p) \<and> d \<noteq> []"
    using that by (simp add: main_def Let_def startup_exists output_dir_for_def)
  show "main e (Extract p od nf iv) w =
        (Returned,
         try_extract e (Path p) (joinpath (parent (Path p)) ''frames'') nf iv
           (logger INFO (FoundVideos 1) (logger INFO SetupCompleted (setup_ffmpeg_path e w))))"
    if "lower (suffix (Path p)) \<noteq> ''.json'' \<and> exists w (Path p) \<and> (od = None \<or> od = Some [])"
    using that by (auto simp: main_def Let_def startup_exists output_dir_for_def)
  show fold: "process_videos e od nf iv (length vs) vs w' =
        foldl (\<lambda>w v. try_extract e v (joinpath (parent v) ''frames'') nf iv w) w' vs"
    if "length vs \<noteq> 1 \<or> od = None \<or> od = Some []" for w'
    using that by (simp add: process_videos_foldl output_dir_default)
  show "main e (Extract p od nf iv) w =
        (Returned,
         foldl (\<lambda>w v. try_extract e v (joinpath (parent v) ''frames'') nf iv w)
           (logger INFO (FoundVideos (length vs)) w1) vs)"
    if "lower (suffix (Path p)) = ''.json'' \<and> exists w (Path p) \<and>
        load_manifest e (Path p) (logger INFO SetupCompleted (setup_ffmpeg_path e w)) = (Inr vs, w1) \<and>
        length vs \<noteq> 1"
    using that by (simp add: main_def Let_def startup_exists fold)
qed


lemma v2_suffix: "lower (suffix (Path ''/b/v2.mp4'')) \<noteq> ''.json''"
  by (simp add: suffix_def path_simps)

lemma two_videos_loaded:
  "load_manifest (sample_env two_videos) (Path ''/batch.json'')
     (logger INFO SetupCompleted (setup_ffmpeg_path (sample_env two_videos) sample_world)) =
   (Inr [Path ''/a/v1.mp4'', Path ''/b/v2.mp4''],
    logger INFO (DetectedJson (Path ''/batch.json''))
      (logger INFO SetupCompleted (setup_ffmpeg_path (sample_env two_videos) sample_world)))"
proof -
  have "json_load (sample_env two_videos) (Path ''/batch.json'') = Loaded two_videos"
    by (simp add: sample_env_def)
  then show ?thesis
    by (simp add: load_manifest_def Let_def is_dir_logger setup_is_dir batch_file)
       (simp add: manifest_videos_def two_videos_def)
qed

lemma single_override_run:
  "main (sample_env one_video) (Extract ''/b/v2.mp4'' (Some ''/out'') (Some 5) None) sample_world =
     (Returned,
      sample_world
        \<lparr>files := files sample_world @
           [([''out''], Dir), ([''out'', ''frame_0001.png''], File)],
         logged :=
           [(ERROR, BinariesNotFound), (INFO, SetupCompleted), (INFO, FoundVideos 1),
            (INFO, FFmpegCommand ''v2.mp4''
               \<lparr>cmd_input = Path ''/b/v2.mp4'', cmd_fps = 1 / 2,
                  cmd_output = Path ''/out/frame_%04d.png'', cmd_vsync = ''0''\<rparr>),
            (INFO, FramesExtracted (Path ''/out''))],
         calls :=
           [ProbeCall (Path ''/b/v2.mp4''),
            RunCall \<lparr>cmd_input = Path ''/b/v2.mp4'', cmd_fps = 1 / 2,
                     cmd_output = Path ''/out/frame_%04d.png'', cmd_vsync = ''0''\<rparr>]\<rparr>)"
  by (simp add: main_simps extract_simps probe_simps path_simps fs_simps int_simps)

lemma two_videos_override_run:
  "main (sample_env two_videos) (Extract ''/batch.json'' (Some ''/out'') (Some 5) None) sample_world =
   main (sample_env two_videos) (Extract ''/batch.json'' None (Some 5) None) sample_world"
  by (simp add: main_simps two_videos_def extract_simps probe_simps path_simps fs_simps int_simps)

lemma one_video_override_run:
  "main (sample_env one_video) (Extract ''/batch.json'' (Some ''/out'') (Some 5) None) sample_world =
     (Returned,
      sample_world
        \<lparr>files := files sample_world @
           [([''out''], Dir), ([''out'', ''frame_0001.png''], File)],
         logged :=
           [(ERROR, BinariesNotFound), (INFO, SetupCompleted),
            (INFO, DetectedJson (Path ''/batch.json'')), (INFO, FoundVideos 1),
            (INFO, FFmpegCommand ''v2.mp4''
               \<lparr>cmd_input = Path ''/b/v2.mp4'', cmd_fps = 1 / 2,
                  cmd_output = Path ''/out/frame_%04d.png'', cmd_vsync = ''0''\<rparr>),
            (INFO, FramesExtracted (Path ''/out''))],
         calls :=
           [ProbeCall (Path ''/b/v2.mp4''),
            RunCall \<lparr>cmd_input = Path ''/b/v2.mp4'', cmd_fps = 1 / 2,
                     cmd_output = Path ''/out/frame_%04d.png'', cmd_vsync = ''0''\<rparr>]\<rparr>)"
  by (simp add: main_simps one_video_def extract_simps probe_simps path_simps fs_simps int_simps)

lemma one_video_run:
  "main (sample_env one_video) (Extract ''/batch.json'' None (Some 5) None) sample_world =
     (Returned,
      sample_world
        \<lparr>files := files sample_world @
           [([''b'', ''frames''], Dir), ([''b'', ''frames'', ''frame_0001.png''], File)],
         logged :=
           [(ERROR, BinariesNotFound), (INFO, SetupCompleted),
            (INFO, DetectedJson (Path ''/batch.json'')), (INFO, FoundVideos 1),
            (INFO, FFmpegCommand ''v2.mp4''
               \<lparr>cmd_input = Path ''/b/v2.mp4'', cmd_fps = 1 / 2,
                  cmd_output = Path ''/b/frames/frame_%04d.png'', cmd_vsync = ''0''\<rparr>),
            (INFO, FramesExtracted (Path ''/b/frames''))],
         calls :=
           [ProbeCall (Path ''/b/v2.mp4''),
            RunCall \<lparr>cmd_input = Path ''/b/v2.mp4'', cmd_fps = 1 / 2,
                     cmd_output = Path ''/b/frames/frame_%04d.png'', cmd_vsync = ''0''\<rparr>]\<rparr>)"
  by (simp add: main_simps one_video_def extract_simps probe_simps path_simps fs_simps int_simps)

lemma output_directory_choice_example:
  "lower (suffix (Path ''/b/v2.mp4'')) \<noteq> ''.json'' \<and> exists sample_world (Path ''/b/v2.mp4'') \<and>
   ''/out'' \<noteq> [] \<and>
   main (sample_env one_video) (Extract ''/b/v2.mp4'' (Some ''/out'') (Some 5) None) sample_world =
     (Returned,
      try_extract (sample_env one_video) (Path ''/b/v2.mp4'') (Path ''/out'') (Some 5) None
        (logger INFO (FoundVideos 1)
           (logger INFO SetupCompleted (setup_ffmpeg_path (sample_env one_video) sample_world)))) \<and>
   ([''out'', ''frame_0001.png''], File) \<in> set (files (snd (main (sample_env one_video)
      (Extract ''/b/v2.mp4'' (Some ''/out'') (Some 5) None) sample_world))) \<and>
   main (sample_env one_video) (Extract ''/b/v2.mp4'' None (Some 5) None) sample_world =
     (Returned,
      try_extract (sample_env one_video) (Path ''/b/v2.mp4'')
        (joinpath (parent (Path ''/b/v2.mp4'')) ''frames'') (Some 5) None
        (logger INFO (FoundVideos 1)
           (logger INFO SetupCompleted (setup_ffmpeg_path (sample_env one_video) sample_world)))) \<and>
   length [Path ''/a/v1.mp4'', Path ''/b/v2.mp4''] \<noteq> 1 \<and>
   process_videos (sample_env two_videos) (Some ''/out'') (Some 5) None
       (length [Path ''/a/v1.mp4'', Path ''/b/v2.mp4'']) [Path ''/a/v1.mp4'', Path ''/b/v2.mp4'']
       sample_world =
     foldl (\<lambda>w v. try_extract (sample_env two_videos) v (joinpath (parent v) ''frames'')
              (Some 5) None w)
       sample_world [Path ''/a/v1.mp4'', Path ''/b/v2.mp4''] \<and>
   lower (suffix (Path ''/batch.json'')) = ''.json'' \<and> exists sample_world (Path ''/batch.json'') \<and>
   main (sample_env two_videos) (Extract ''/batch.json'' (Some ''/out'') (Some 5) None) sample_world =
     (Returned,
      foldl (\<lambda>w v. try_extract (sample_env two_videos) v (joinpath (parent v) ''frames'')
               (Some 5) None w)
        (logger INFO (FoundVideos (length [Path ''/a/v1.mp4'', Path ''/b/v2.mp4'']))
           (logger INFO (DetectedJson (Path ''/batch.json''))
              (logger INFO SetupCompleted (setup_ffmpeg_path (sample_env two_videos) sample_world))))
        [Path ''/a/v1.mp4'', Path ''/b/v2.mp4'']) \<and>
   ([''b'', ''frames'', ''frame_0001.png''], File) \<in> set (files (snd (main (sample_env two_videos)
      (Extract ''/batch.json'' (Some ''/out'') (Some 5) None) sample_world)))"
proof -
  let ?vs = "[Path ''/a/v1.mp4'', Path ''/b/v2.mp4'']"
  note t1 = output_directory_choice [where p = "''/b/v2.mp4''" and w = sample_world
      and d = "''/out''" and e = "sample_env one_video" and nf = "Some 5" and iv = None
      and od = None]
  note t2 = output_directory_choice [where p = "''/batch.json''" and w = sample_world
      and e = "sample_env two_videos" and nf = "Some 5" and iv = None
      and od = "Some ''/out''" and vs = ?vs and w' = sample_world
      and ?w1.0 = "logger INFO (DetectedJson (Path ''/batch.json''))
          (logger INFO SetupCompleted (setup_ffmpeg_path (sample_env two_videos) sample_world))"]
  have n: "''/out'' \<noteq> []" and l: "length ?vs \<noteq> 1" by simp_all
  have a1: "lower (suffix (Path ''/b/v2.mp4'')) \<noteq> ''.json'' \<and>
     exists sample_world (Path ''/b/v2.mp4'') \<and> ''/out'' \<noteq> []"
    using v2_suffix sample_exists(1) by simp
  have a2: "lower (suffix (Path ''/b/v2.mp4'')) \<noteq> ''.json'' \<and>
     exists sample_world (Path ''/b/v2.mp4'') \<and> (None = None \<or> None = Some [])"
    using v2_suffix sample_exists(1) by simp
  have a3: "length ?vs \<noteq> 1 \<or> Some ''/out'' = None \<or> Some ''/out'' = Some []"
    by simp
  have a4: "lower (suffix (Path ''/batch.json'')) = ''.json'' \<and>
     exists sample_world (Path ''/batch.json'') \<and>
     load_manifest (sample_env two_videos) (Path ''/batch.json'')
       (logger INFO SetupCompleted (setup_ffmpeg_path (sample_env two_videos) sample_world)) =
     (Inr ?vs, logger INFO (DetectedJson (Path ''/batch.json''))
          (logger INFO SetupCompleted (setup_ffmpeg_path (sample_env two_videos) sample_world))) \<and>
     length ?vs \<noteq> 1"
    using batch_suffix batch_file(1) two_videos_loaded by simp
  note r1 = mp [OF conjunct1 [OF t1] a1]
  note r2 = mp [OF conjunct1 [OF conjunct2 [OF t1]] a2]
  note r3 = mp [OF conjunct1 [OF conjunct2 [OF conjunct2 [OF t2]]] a3]
  note r4 = mp [OF conjunct2 [OF conjunct2 [OF conjunct2 [OF t2]]] a4]
  have f1: "([''out'', ''frame_0001.png''], File) \<in> set (files (snd (main (sample_env one_video)
      (Extract ''/b/v2.mp4'' (Some ''/out'') (Some 5) None) sample_world)))"
    unfolding single_override_run by (simp add: sample_world_def)
  have f2: "([''b'', ''frames'', ''frame_0001.png''], File) \<in> set (files (snd (main (sample_env two_videos)
      (Extract ''/batch.json'' (Some ''/out'') (Some 5) None) sample_world)))"
    unfolding two_videos_override_run two_videos_run by (simp add: sample_world_def)
  from v2_suffix sample_exists(1) n r1 f1 r2 l r3 batch_suffix batch_file(1) r4 f2
  show ?thesis by (intro conjI)
qed

text \<open>
  C2: the batch manifest \<^verbatim>\<open>/batch.json\<close> lists exactly one video, \<^verbatim>\<open>/b/v2.mp4\<close>, and the run
  is given the custom output directory \<^verbatim>\<open>/out\<close>. The input is taken for a batch file (the
  log entry of line 194 says so), and yet the frames are written to \<^verbatim>\<open>/out\<close>; the video's
  own \<^verbatim>\<open>/b/frames\<close> is not even created. The help text of the option (line 169, ``Ignored
  for batch processing'') and the comment of line 210 (``For batch, output_dir is always
  relative to the video path'') promise \<^verbatim>\<open>/b/frames\<close>, which is where the same manifest
  puts the frames when no override is given. The test of line 212 counts the videos
  instead of asking for the input mode.
\<close>

theorem one_entry_manifest_override:
  "json_load (sample_env one_video) (Path ''/batch.json'') =
     Loaded (JObj [(''videos'', JList [JStr ''/b/v2.mp4''])]) \<and>
   lower (suffix (Path ''/batch.json'')) = ''.json'' \<and>
   fst (main (sample_env one_video) (Extract ''/batch.json'' (Some ''/out'') (Some 5) None)
      sample_world) = Returned \<and>
   (INFO, DetectedJson (Path ''/batch.json'')) \<in> set (logged (snd (main (sample_env one_video)
      (Extract ''/batch.json'' (Some ''/out'') (Some 5) None) sample_world))) \<and>
   ([''out'', ''frame_0001.png''], File) \<in> set (files (snd (main (sample_env one_video)
      (Extract ''/batch.json'' (Some ''/out'') (Some 5) None) sample_world))) \<and>
   ([''b'', ''frames''], Dir) \<notin> set (files (snd (main (sample_env one_video)
      (Extract ''/batch.json'' (Some ''/out'') (Some 5) None) sample_world))) \<and>
   ([''b'', ''frames'', ''frame_0001.png''], File) \<notin> set (files (snd (main (sample_env one_video)
      (Extract ''/batch.json'' (Some ''/out'') (Some 5) None) sample_world))) \<and>
   ([''b'', ''frames'', ''frame_0001.png''], File) \<in> set (files (snd (main (sample_env one_video)
      (Extract ''/batch.json'' None (Some 5) None) sample_world)))"
  unfolding one_video_override_run one_video_run
  by (simp add: sample_env_def one_video_def sample_world_def batch_suffix)


end
